theory Spec2Isabelle
  imports Main
begin

section \<open>Strings\<close>

text \<open>
  A Python \<open>str\<close> is a sequence of code points and \<open>len\<close> counts them. The model
  uses \<open>string\<close>, one \<open>char\<close> for one code point, so it covers the texts whose code
  points are below 256; the functions below only compare a character with given ones,
  test it for white space or turn it to lower case.
\<close>

definition newline :: char where
  "newline = CHR 0x0A"

text \<open>\<open>MAX_MESSAGE_LENGTH = 4000\<close>.\<close>

definition MAX_MESSAGE_LENGTH :: nat where
  "MAX_MESSAGE_LENGTH = 4000"

text \<open>\<open>text[a:b]\<close> for indices \<open>0 \<le> a\<close>, \<open>0 \<le> b\<close>; Python clamps both to the length.\<close>

definition slice :: "string \<Rightarrow> nat \<Rightarrow> nat \<Rightarrow> string" where
  "slice s a b = take (b - a) (drop a s)"

text \<open>
  \<open>text.rfind(c, start, stop)\<close>: the highest index \<open>i\<close> with \<open>start \<le> i < stop\<close>
  (\<open>stop\<close> clamped to the length) and \<open>text[i] = c\<close>, or \<open>-1\<close>. \<open>rfind_scan\<close> looks
  at the \<open>n\<close> indices from \<open>start\<close> on, the highest first.
\<close>

primrec rfind_scan :: "string \<Rightarrow> char \<Rightarrow> nat \<Rightarrow> nat \<Rightarrow> int" where
  "rfind_scan s c start 0 = - 1"
| "rfind_scan s c start (Suc n) =
     (if s ! (start + n) = c then int (start + n) else rfind_scan s c start n)"

definition rfind :: "string \<Rightarrow> char \<Rightarrow> nat \<Rightarrow> nat \<Rightarrow> int" where
  "rfind s c start stop = rfind_scan s c start (min stop (length s) - start)"

section \<open>Splitting a long message\<close>

text \<open>
  The \<open>while\<close> loop of \<open>send_telegram_message_telethon\<close>, with its variables
  \<open>current_pos\<close> and \<open>parts\<close> as arguments:
  \<^verbatim>\<open>
  while current_pos < len(text):
      chunk_end = current_pos + MAX_MESSAGE_LENGTH
      if chunk_end >= len(text):
          parts.append(text[current_pos:])
          break
      split_at = text.rfind('\n', current_pos, chunk_end)
      if split_at != -1 and split_at > current_pos:
          parts.append(text[current_pos:split_at])
          current_pos = split_at + 1
      else:
          parts.append(text[current_pos:chunk_end])
          current_pos = chunk_end
  \<close>
  The measure of the termination proof is the number of characters after \<open>current_pos\<close>.
\<close>

definition split_at :: "string \<Rightarrow> nat \<Rightarrow> int" where
  "split_at text current_pos =
     rfind text newline current_pos (current_pos + MAX_MESSAGE_LENGTH)"

text \<open>
  The last \<open>if\<close> of the loop body: the part that is appended and the new value of
  \<open>current_pos\<close>.
\<close>

definition split_step :: "string \<Rightarrow> nat \<Rightarrow> string \<times> nat" where
  "split_step text current_pos =
     (if split_at text current_pos \<noteq> - 1 \<and> split_at text current_pos > int current_pos
      then (slice text current_pos (nat (split_at text current_pos)),
            nat (split_at text current_pos) + 1)
      else (slice text current_pos (current_pos + MAX_MESSAGE_LENGTH),
            current_pos + MAX_MESSAGE_LENGTH))"

function split_loop :: "string \<Rightarrow> nat \<Rightarrow> string list \<Rightarrow> string list" where
  "split_loop text current_pos parts =
     (if current_pos < length text then
        (if current_pos + MAX_MESSAGE_LENGTH \<ge> length text
         then parts @ [drop current_pos text]
         else split_loop text (snd (split_step text current_pos))
                (parts @ [fst (split_step text current_pos)]))
      else parts)"
  by pat_completeness auto
termination
  by (relation "measure (\<lambda>(text, current_pos, parts). length text - current_pos)")
     (auto simp: split_step_def MAX_MESSAGE_LENGTH_def)

text \<open>The parts of a text that is longer than \<open>MAX_MESSAGE_LENGTH\<close>.\<close>

definition split_message :: "string \<Rightarrow> string list" where
  "split_message text = split_loop text 0 []"


section \<open>Delivery\<close>

text \<open>
  Everything the program does to the outside is recorded, in order, in a trace of effects.
  A log record carries the level and the format string of the \<open>logger\<close> call, with its
  placeholders left as they are written. The outcome of a call to an external service
  (the HTTP client, a translation provider, the Telegram client) is not decided by the
  program: it is read from a \<open>world\<close>, which may answer differently after different
  histories.
\<close>

datatype level = INFO | WARNING | ERROR

text \<open>
  The destinations of this program: \<open>target_channel_entity\<close>, and the chat of a manual
  command (\<open>event.chat_id\<close>).
\<close>

datatype dest = TargetChannel | Chat int

datatype provider = OpenAI | Anthropic

text \<open>
  A request to a provider: the model, the system prompt, the content of the one user
  message and \<open>max_tokens\<close>. The temperature is 0.3 in every request.
\<close>

record request =
  model :: string
  system_prompt :: string
  user_content :: string
  max_tokens :: nat

text \<open>
  \<open>SendMessage\<close> and \<open>Reply\<close> record an attempt, with \<open>True\<close> when it returned and
  \<open>False\<close> when it raised.
\<close>

datatype effect =
    Log level string
  | HttpGet string
  | ProviderCall provider request
  | SendMessage dest string bool
  | Reply string bool
  | Sleep nat

section \<open>Documents\<close>

text \<open>
  The tree BeautifulSoup builds: a tag with its name, the tokens of its \<open>class\<close>
  attribute (\<open>element.get('class', [])\<close>) and its children; a text node; a comment; and
  the other strings that are neither text nor comment for \<open>get_text\<close> and
  \<open>isinstance(text, Comment)\<close> (a doctype, a declaration). A document is the list of the
  children of the \<open>soup\<close> object.
\<close>

datatype node =
    Tag string "string list" "node list"
  | NavigableString string
  | Comment string
  | OtherString string

text \<open>The result of \<open>session.get\<close> and \<open>response.text()\<close>, parsed.\<close>

datatype http_result =
    HttpRaised
  | HttpResponse nat "node list option"

text \<open>
  The result of \<open>chat.completions.create\<close> or \<open>messages.create\<close>: an exception, or
  a response with its list of choices (content blocks); an entry is \<open>None\<close> when the
  choice has no content (the block has no \<open>text\<close>).
\<close>

datatype api_result =
    ApiRaised
  | ApiResponse "string option list"

record world =
  http_get :: "effect list \<Rightarrow> string \<Rightarrow> http_result"
  openai_create :: "effect list \<Rightarrow> request \<Rightarrow> api_result"
  anthropic_create :: "effect list \<Rightarrow> request \<Rightarrow> api_result"
  send_message :: "effect list \<Rightarrow> dest \<Rightarrow> string \<Rightarrow> bool"
  reply :: "effect list \<Rightarrow> string \<Rightarrow> bool"

text \<open>
  The \<open>for\<close> loop over \<open>enumerate(parts)\<close>; \<open>n\<close> is \<open>len(parts)\<close> and \<open>i\<close> the index
  of the first part of the list.
  \<^verbatim>\<open>
  for i, part in enumerate(parts):
      try:
          logger.info(f"Sending part {i+1}/{len(parts)} to {entity}")
          await client.send_message(entity, part, parse_mode='html', link_preview=False)
          if i < len(parts) - 1:
              await asyncio.sleep(1)
      except Exception as e:
          logger.error(...)
  \<close>
\<close>

text \<open>
  The effects of one iteration, given whether \<open>client.send_message\<close> returned
  (\<open>sent\<close>) or raised: the \<open>sleep\<close> is inside the \<open>try\<close>, after the send.
\<close>

definition send_part :: "dest \<Rightarrow> nat \<Rightarrow> nat \<Rightarrow> string \<Rightarrow> bool \<Rightarrow> effect list" where
  "send_part entity n i part sent =
     Log INFO ''Sending part {i+1}/{len(parts)} to {entity}''
     # (if sent
        then SendMessage entity part True # (if int i < int n - 1 then [Sleep 1] else [])
        else [SendMessage entity part False,
              Log ERROR ''Failed to send part {i+1} of message to {entity}: {e}''])"

fun send_parts :: "world \<Rightarrow> dest \<Rightarrow> nat \<Rightarrow> nat \<Rightarrow> string list \<Rightarrow> effect list \<Rightarrow> effect list" where
  "send_parts w entity n i [] tr = tr"
| "send_parts w entity n i (part # rest) tr =
     send_parts w entity n (i + 1) rest
       (tr @ send_part entity n i part
               (send_message w
                  (tr @ [Log INFO ''Sending part {i+1}/{len(parts)} to {entity}'']) entity part))"

definition send_telegram_message_telethon :: "world \<Rightarrow> dest \<Rightarrow> string \<Rightarrow> effect list \<Rightarrow> effect list" where
  "send_telegram_message_telethon w entity text tr =
     (if length text \<le> MAX_MESSAGE_LENGTH then
        (if send_message w tr entity text
         then tr @ [SendMessage entity text True]
         else tr @ [SendMessage entity text False,
                    Log ERROR ''Failed to send message to {entity}: {e}''])
      else send_parts w entity (length (split_message text)) 0 (split_message text)
             (tr @ [Log INFO ''Message is too long ({len(text)} chars). Splitting into multiple messages.'']))"

section \<open>Translation\<close>

text \<open>
  Python's truth value of an \<open>Optional[str]\<close>: \<open>None\<close> and the empty string are false.
\<close>

definition truthy :: "string option \<Rightarrow> bool" where
  "truthy x = (case x of None \<Rightarrow> False | Some s \<Rightarrow> s \<noteq> [])"

text \<open>
  \<open>str.isspace\<close> on one character, which is also what \<open>\s\<close> matches in a \<open>str\<close>
  pattern: the code points 9 to 13, 28 to 32, 133 and 160 among those below 256.
\<close>

definition isspace :: "char \<Rightarrow> bool" where
  "isspace c = (c \<in> set [CHR 0x09, CHR 0x0A, CHR 0x0B, CHR 0x0C, CHR 0x0D,
                          CHR 0x1C, CHR 0x1D, CHR 0x1E, CHR 0x1F, CHR 0x20, CHR 0x85, CHR 0xA0])"

text \<open>\<open>s.strip()\<close>.\<close>

definition strip :: "string \<Rightarrow> string" where
  "strip s = rev (dropWhile isspace (rev (dropWhile isspace s)))"

text \<open>
  The module-level configuration: \<open>TRANSLATION_PROVIDER\<close> (already lower-cased) and the
  keys and model names read from the environment.
\<close>

record config =
  TRANSLATION_PROVIDER :: string
  OPENAI_API_KEY :: "string option"
  ANTHROPIC_API_KEY :: "string option"
  OPENAI_MODEL_NAME :: string
  ANTHROPIC_MODEL_NAME :: string

text \<open>
  Whether \<open>openai_client\<close> (\<open>anthropic_client\<close>) is set after the module-level client
  setup: the provider is selected and its key is there.
\<close>

definition openai_client :: "config \<Rightarrow> bool" where
  "openai_client cfg = (TRANSLATION_PROVIDER cfg = ''openai'' \<and> truthy (OPENAI_API_KEY cfg))"

definition anthropic_client :: "config \<Rightarrow> bool" where
  "anthropic_client cfg =
     (TRANSLATION_PROVIDER cfg \<noteq> ''openai'' \<and> TRANSLATION_PROVIDER cfg = ''anthropic''
      \<and> truthy (ANTHROPIC_API_KEY cfg))"

definition system_prompt_translate :: "bool \<Rightarrow> string" where
  "system_prompt_translate is_title =
     (if is_title
      then ''You are a helpful assistant that translates a Dhivehi news article title to English. ''
         @ ''Provide only the translated English title. Keep it concise and impactful.''
      else ''You are a helpful assistant that translates Dhivehi text to English. ''
         @ ''Provide only the translated English text as output, without any additional commentary or phrases like ''
         @ [CHR 0x27] @ ''Here is the translation:'' @ [CHR 0x27] @ ''. ''
         @ ''Maintain a journalistic and formal tone in the English translation.'')"

text \<open>
  The f-string of the source writes \<open>\\n\\n\<close>: a backslash and the letter n, twice, not
  two newlines.
\<close>

definition user_message_content :: "string \<Rightarrow> string" where
  "user_message_content dhivehi_text =
     ''Translate the following Dhivehi text to English:''
       @ [CHR 0x5C, CHR ''n'', CHR 0x5C, CHR ''n''] @ dhivehi_text"

definition translation_request :: "string \<Rightarrow> string \<Rightarrow> bool \<Rightarrow> request" where
  "translation_request model_name dhivehi_text is_title =
     \<lparr> model = model_name,
       system_prompt = system_prompt_translate is_title,
       user_content = user_message_content dhivehi_text,
       max_tokens = (if is_title then 1000 else 3000) \<rparr>"

text \<open>
  \<open>response.choices[0].message.content.strip()\<close> and
  \<open>response.content[0].text.strip()\<close> inside the \<open>try\<close>: an exception of the call, an
  empty list (IndexError) and an absent content (AttributeError) all reach the
  \<open>except Exception\<close> branch, which is the value \<open>None\<close> here.
\<close>

definition first_choice :: "api_result \<Rightarrow> string option" where
  "first_choice r =
     (case r of
        ApiRaised \<Rightarrow> None
      | ApiResponse [] \<Rightarrow> None
      | ApiResponse (None # _) \<Rightarrow> None
      | ApiResponse (Some content # _) \<Rightarrow> Some (strip content))"

text \<open>
  \<open>translate_text(dhivehi_text, is_title)\<close>: the translation or \<open>None\<close>, and the trace
  with the effects of the call added.
\<close>

definition translate_text ::
  "config \<Rightarrow> world \<Rightarrow> string option \<Rightarrow> bool \<Rightarrow> effect list \<Rightarrow> string option \<times> effect list" where
  "translate_text cfg w dhivehi_text is_title tr =
     (case dhivehi_text of
        None \<Rightarrow> (None, tr)
      | Some txt \<Rightarrow>
          if txt = [] then (None, tr)
          else if TRANSLATION_PROVIDER cfg = ''openai'' then
            (if \<not> openai_client cfg
             then (None, tr @ [Log ERROR ''OpenAI client not initialized for translation.''])
             else
               (case first_choice
                       (openai_create w tr (translation_request (OPENAI_MODEL_NAME cfg) txt is_title)) of
                  Some translation \<Rightarrow>
                    (Some translation,
                     tr @ [ProviderCall OpenAI (translation_request (OPENAI_MODEL_NAME cfg) txt is_title)])
                | None \<Rightarrow>
                    (None,
                     tr @ [ProviderCall OpenAI (translation_request (OPENAI_MODEL_NAME cfg) txt is_title),
                           Log ERROR ''OpenAI API error: {e}''])))
          else if TRANSLATION_PROVIDER cfg = ''anthropic'' then
            (if \<not> anthropic_client cfg
             then (None, tr @ [Log ERROR ''Anthropic client not initialized for translation.''])
             else
               (case first_choice
                       (anthropic_create w tr
                          (translation_request (ANTHROPIC_MODEL_NAME cfg) txt is_title)) of
                  Some translation \<Rightarrow>
                    (Some translation,
                     tr @ [ProviderCall Anthropic
                             (translation_request (ANTHROPIC_MODEL_NAME cfg) txt is_title)])
                | None \<Rightarrow>
                    (None,
                     tr @ [ProviderCall Anthropic
                             (translation_request (ANTHROPIC_MODEL_NAME cfg) txt is_title),
                           Log ERROR ''Anthropic API error: {e}''])))
          else (None, tr @ [Log ERROR (''No valid translation provider configured (''
                              @ [CHR 0x27] @ ''{TRANSLATION_PROVIDER}'' @ [CHR 0x27]
                              @ ''). Cannot translate.'')]))"

section \<open>Extraction\<close>

text \<open>\<open>separator.join(strings)\<close>.\<close>

fun join :: "string \<Rightarrow> string list \<Rightarrow> string" where
  "join sep [] = []"
| "join sep [x] = x"
| "join sep (x # y # ys) = x @ sep @ join sep (y # ys)"

text \<open>
  The nodes of a tree in document order, the node itself first: the order in which
  \<open>find\<close>, \<open>find_all\<close> and \<open>find_all_next\<close> meet them.
\<close>

fun preorder :: "node \<Rightarrow> node list" where
  "preorder (Tag name classes children) =
     Tag name classes children # concat (map preorder children)"
| "preorder (NavigableString s) = [NavigableString s]"
| "preorder (Comment s) = [Comment s]"
| "preorder (OtherString s) = [OtherString s]"

definition document_order :: "node list \<Rightarrow> node list" where
  "document_order doc = concat (map preorder doc)"

text \<open>
  The strings \<open>get_text(strip=True)\<close> joins: every text node below, stripped, the empty
  ones left out; comments and other strings are not text.
\<close>

fun all_strings :: "node \<Rightarrow> string list" where
  "all_strings (Tag name classes children) = concat (map all_strings children)"
| "all_strings (NavigableString s) = (if strip s = [] then [] else [strip s])"
| "all_strings (Comment s) = []"
| "all_strings (OtherString s) = []"

definition get_text :: "string \<Rightarrow> node \<Rightarrow> string" where
  "get_text separator n = join separator (all_strings n)"

text \<open>\<open>soup.get_text(separator, strip=True)\<close> on the whole document.\<close>

definition soup_get_text :: "string \<Rightarrow> node list \<Rightarrow> string" where
  "soup_get_text separator doc = join separator (concat (map all_strings doc))"

definition is_tag :: "string \<Rightarrow> node \<Rightarrow> bool" where
  "is_tag tag_name n = (case n of Tag name classes children \<Rightarrow> name = tag_name | _ \<Rightarrow> False)"

text \<open>
  \<open>for tag in soup.find_all(tag_name): tag.decompose()\<close>: every tag of that name leaves
  the tree, with all below it.
\<close>

fun decompose :: "string \<Rightarrow> node \<Rightarrow> node" where
  "decompose tag_name (Tag name classes children) =
     Tag name classes (map (decompose tag_name) (filter (\<lambda>k. \<not> is_tag tag_name k) children))"
| "decompose tag_name (NavigableString s) = NavigableString s"
| "decompose tag_name (Comment s) = Comment s"
| "decompose tag_name (OtherString s) = OtherString s"

definition decompose_all :: "string \<Rightarrow> node list \<Rightarrow> node list" where
  "decompose_all tag_name doc =
     map (decompose tag_name) (filter (\<lambda>k. \<not> is_tag tag_name k) doc)"

definition removed_tag_names :: "string list" where
  "removed_tag_names =
     [''script'', ''style'', ''header'', ''footer'', ''nav'', ''aside'', ''form'', ''img'',
      ''figure'', ''figcaption'', ''iframe'', ''button'', ''input'', ''textarea'', ''select'',
      ''option'']"

definition strip_non_content :: "node list \<Rightarrow> node list" where
  "strip_non_content doc = foldl (\<lambda>d tag_name. decompose_all tag_name d) doc removed_tag_names"

text \<open>
  The title: \<open>soup.find('h1', class_=...)\<close> with the two predicates of the source, on
  the tree before anything is removed. BeautifulSoup gives such a predicate each token
  of the \<open>class\<close> attribute and then the tokens joined by spaces; a single token holds
  no two classes, so the tag matches when its tokens hold every required class. The
  tokens BeautifulSoup produces are not empty and hold no white space.
\<close>

definition is_title_tag :: "node \<Rightarrow> bool" where
  "is_title_tag n =
     (case n of
        Tag name classes children \<Rightarrow>
          name = ''h1'' \<and> list_all (\<lambda>cls. cls \<in> set classes) [''text-waheed'', ''text-black-two'']
      | _ \<Rightarrow> False)"

definition is_fallback_title_tag :: "node \<Rightarrow> bool" where
  "is_fallback_title_tag n =
     (case n of
        Tag name classes children \<Rightarrow>
          name = ''h1'' \<and> ''text-40px'' \<in> set classes \<and> ''text-waheed'' \<in> set classes
      | _ \<Rightarrow> False)"

definition title_tag :: "node list \<Rightarrow> node option" where
  "title_tag doc =
     (case List.find is_title_tag (document_order doc) of
        Some t \<Rightarrow> Some t
      | None \<Rightarrow> List.find is_fallback_title_tag (document_order doc))"

definition dhivehi_title :: "node list \<Rightarrow> string option" where
  "dhivehi_title doc =
     (case title_tag doc of None \<Rightarrow> None | Some t \<Rightarrow> Some (get_text [] t))"

text \<open>\<open>s.lower()\<close>, on the code points below 256.\<close>

definition lower_char :: "char \<Rightarrow> char" where
  "lower_char c =
     (if (65 \<le> (of_char c :: nat) \<and> (of_char c :: nat) \<le> 90)
         \<or> (192 \<le> (of_char c :: nat) \<and> (of_char c :: nat) \<le> 222 \<and> (of_char c :: nat) \<noteq> 215)
      then char_of ((of_char c :: nat) + 32) else c)"

definition lower :: "string \<Rightarrow> string" where
  "lower s = map lower_char s"

text \<open>\<open>sub in s\<close>.\<close>

fun contains :: "string \<Rightarrow> string \<Rightarrow> bool" where
  "contains sub [] = (sub = [])"
| "contains sub (c # cs) = (take (length sub) (c # cs) = sub \<or> contains sub cs)"

definition is_article_body_comment :: "node \<Rightarrow> bool" where
  "is_article_body_comment n =
     (case n of Comment s \<Rightarrow> contains ''article body'' (lower s) | _ \<Rightarrow> False)"

definition is_element :: "node \<Rightarrow> bool" where
  "is_element n = (case n of Tag name classes children \<Rightarrow> True | _ \<Rightarrow> False)"

text \<open>
  \<open>article_body_comment.find_all_next()\<close>: the tags that follow the first matching
  comment in document order; \<open>None\<close> when no comment matches.
\<close>

definition find_all_next :: "node list \<Rightarrow> node list option" where
  "find_all_next doc =
     (case dropWhile (\<lambda>n. \<not> is_article_body_comment n) (document_order doc) of
        [] \<Rightarrow> None
      | article_body_comment # following \<Rightarrow> Some (filter is_element following))"

text \<open>
  The walk over those tags: it stops at the divider, and keeps the text of the
  paragraphs of either accepted class combination.
\<close>

fun collect_article_texts :: "node list \<Rightarrow> string list \<Rightarrow> string list" where
  "collect_article_texts [] article_texts = article_texts"
| "collect_article_texts (Tag name classes children # elements) article_texts =
     (if name = ''div'' \<and> ''hidden'' \<in> set classes \<and> ''lg:block'' \<in> set classes
         \<and> (''m1-10'' \<in> set classes \<or> ''ml-10'' \<in> set classes)
      then article_texts
      else if name = ''p'' then
        (if (''text-19px'' \<in> set classes \<and> ''leading-loose'' \<in> set classes)
            \<and> ''text-faseyha'' \<in> set classes
         then collect_article_texts elements
                (article_texts @ [get_text [newline] (Tag name classes children)])
         else if (''text-19px'' \<in> set classes \<and> ''leading-loose'' \<in> set classes)
            \<and> ''max-w-3xl'' \<in> set classes \<and> ''text-black-two'' \<in> set classes
         then collect_article_texts elements
                (article_texts @ [get_text [newline] (Tag name classes children)])
         else collect_article_texts elements article_texts)
      else collect_article_texts elements article_texts)"
| "collect_article_texts (other # elements) article_texts =
     collect_article_texts elements article_texts"

definition comment_body_text :: "node list \<Rightarrow> string" where
  "comment_body_text doc =
     (case find_all_next doc of
        None \<Rightarrow> []
      | Some elements \<Rightarrow>
          if collect_article_texts elements [] \<noteq> []
          then join [newline, newline] (collect_article_texts elements [])
          else [])"

text \<open>The fallback: the first \<open>article\<close> tag, else \<open>soup.body\<close>, else the whole document.\<close>

definition fallback_body_text :: "node list \<Rightarrow> string" where
  "fallback_body_text doc =
     (case List.find (is_tag ''article'') (document_order doc) of
        Some article_tag \<Rightarrow> get_text [newline] article_tag
      | None \<Rightarrow>
          (case List.find (is_tag ''body'') (document_order doc) of
             Some body \<Rightarrow> get_text [newline] body
           | None \<Rightarrow> soup_get_text [newline] doc))"

definition extracted_body_text :: "node list \<Rightarrow> string" where
  "extracted_body_text doc =
     (if comment_body_text doc \<noteq> [] then comment_body_text doc else fallback_body_text doc)"

text \<open>
  \<open>re.sub(r'(\s*\n\s*){3,}', '\n\n', s)\<close>. The pattern matches exactly the runs of
  white space that hold three newlines or more, and a match that starts at a position
  runs to the end of the white space there (the last \<open>\s*\<close> is greedy). So at each
  position, from the left: if the white space that starts here holds at least three
  newlines, it is replaced as a whole; otherwise the character is kept.
\<close>

function re_sub_blank_lines :: "string \<Rightarrow> string" where
  "re_sub_blank_lines [] = []"
| "re_sub_blank_lines (c # cs) =
     (if 3 \<le> count_list (takeWhile isspace (c # cs)) newline
      then [newline, newline] @ re_sub_blank_lines (dropWhile isspace (c # cs))
      else c # re_sub_blank_lines cs)"
  by pat_completeness auto
termination
  by (relation "measure length")
     (auto split: if_splits intro: le_imp_less_Suc length_dropWhile_le)

definition final_body_text :: "node list \<Rightarrow> string option" where
  "final_body_text doc =
     (if extracted_body_text (strip_non_content doc) \<noteq> []
      then Some (strip (re_sub_blank_lines (extracted_body_text (strip_non_content doc))))
      else None)"

text \<open>
  What \<open>fetch_article_text\<close> returns for a parsed document: \<open>(None, None)\<close> or the
  pair of the title and the final body text.
\<close>

definition extract_article :: "node list \<Rightarrow> string option \<times> string option" where
  "extract_article doc =
     (if \<not> truthy (dhivehi_title doc) \<and> \<not> truthy (final_body_text doc)
      then (None, None)
      else (dhivehi_title doc, final_body_text doc))"

text \<open>
  \<open>fetch_article_text(url)\<close>. An exception of the request, of reading the response or
  of the parser reaches the \<open>except Exception\<close> branch.
\<close>

definition fetch_article_text ::
  "world \<Rightarrow> string \<Rightarrow> effect list \<Rightarrow> (string option \<times> string option) \<times> effect list" where
  "fetch_article_text w url tr =
     (case http_get w tr url of
        HttpRaised \<Rightarrow>
          ((None, None),
           tr @ [HttpGet url, Log ERROR ''General error in fetch_article_text for {url}: {e}''])
      | HttpResponse status html \<Rightarrow>
          if status \<noteq> 200
          then ((None, None),
                tr @ [HttpGet url, Log ERROR ''Failed to fetch URL {url}: HTTP {response.status}''])
          else
            (case html of
               None \<Rightarrow>
                 ((None, None),
                  tr @ [HttpGet url,
                        Log ERROR ''General error in fetch_article_text for {url}: {e}''])
             | Some doc \<Rightarrow>
                 (extract_article doc,
                  tr @ [HttpGet url]
                     @ (if title_tag doc = None
                        then [Log WARNING ''Could not find title H1 tag for {url}''] else [])
                     @ (if \<not> truthy (dhivehi_title doc) \<and> \<not> truthy (final_body_text doc)
                        then [Log ERROR ''Failed to extract any title or meaningful body text from {url} after all methods.'']
                        else []))))"

section \<open>The handlers\<close>

text \<open>
  \<open>URL_REGEX.findall(text)[0]\<close> for \<open>https?://\S+\<close>: the match at the leftmost
  position that has one, or \<open>None\<close> when \<open>findall\<close> returns the empty list.
\<close>

definition url_match :: "string \<Rightarrow> string option" where
  "url_match s =
     (if take 8 s = ''https://'' \<and> takeWhile (\<lambda>c. \<not> isspace c) (drop 8 s) \<noteq> []
      then Some (''https://'' @ takeWhile (\<lambda>c. \<not> isspace c) (drop 8 s))
      else if take 7 s = ''http://'' \<and> takeWhile (\<lambda>c. \<not> isspace c) (drop 7 s) \<noteq> []
      then Some (''http://'' @ takeWhile (\<lambda>c. \<not> isspace c) (drop 7 s))
      else None)"

fun first_url :: "string \<Rightarrow> string option" where
  "first_url [] = None"
| "first_url (c # cs) =
     (case url_match (c # cs) of Some url \<Rightarrow> Some url | None \<Rightarrow> first_url cs)"

text \<open>\<open>s.replace(c, r)\<close> for a one-character \<open>c\<close>.\<close>

definition replace :: "char \<Rightarrow> string \<Rightarrow> string \<Rightarrow> string" where
  "replace c r s = concat (map (\<lambda>x. if x = c then r else [x]) s)"

definition formatted_url :: "string \<Rightarrow> string" where
  "formatted_url url =
     replace (CHR ''>'') ''&gt;'' (replace (CHR ''<'') ''&lt;'' (replace (CHR ''&'') ''&amp;'' url))"

definition message_to_send :: "string option \<Rightarrow> string \<Rightarrow> string \<Rightarrow> string" where
  "message_to_send translated_title_english translation_english_body url =
     (case translated_title_english of
        None \<Rightarrow> []
      | Some t \<Rightarrow> if t = [] then [] else ''<b>'' @ t @ ''</b>'' @ [newline, newline])
     @ translation_english_body @ [newline, newline]
     @ ''<a href='' @ [CHR 0x22] @ formatted_url url @ [CHR 0x22] @ ''>Original Article</a>''"

text \<open>\<open>not article_text_dhivehi or len(article_text_dhivehi) < minimum\<close>.\<close>

definition too_short :: "nat \<Rightarrow> string option \<Rightarrow> bool" where
  "too_short minimum article_text_dhivehi =
     (case article_text_dhivehi of None \<Rightarrow> True | Some b \<Rightarrow> b = [] \<or> length b < minimum)"

text \<open>
  The title step of both handlers: \<open>translated_title_english\<close> stays \<open>None\<close> unless
  there is a title, which is then translated after the handler's log line.
\<close>

definition translate_title ::
  "config \<Rightarrow> world \<Rightarrow> string \<Rightarrow> string option \<Rightarrow> effect list \<Rightarrow> string option \<times> effect list" where
  "translate_title cfg w log_line title tr =
     (if truthy title then translate_text cfg w title True (tr @ [Log INFO log_line])
      else (None, tr))"

record new_message_event =
  chat_id :: int
  message_text :: "string option"

text \<open>\<open>handle_new_post(event)\<close>; it raises nothing.\<close>

definition handle_new_post :: "config \<Rightarrow> world \<Rightarrow> new_message_event \<Rightarrow> effect list \<Rightarrow> effect list" where
  "handle_new_post cfg w event tr =
     (case first_url (case message_text event of None \<Rightarrow> [] | Some t \<Rightarrow> t) of
        None \<Rightarrow> tr @ [Log INFO ''New message received from Mihaaru channel (ID: {event.chat_id})'']
      | Some url \<Rightarrow>
          (case fetch_article_text w url
                  (tr @ [Log INFO ''New message received from Mihaaru channel (ID: {event.chat_id})'',
                         Log INFO ''Detected article URL: {url} from Mihaaru channel post.'']) of
             ((title, article_text_dhivehi), tr1) \<Rightarrow>
               if too_short 50 article_text_dhivehi
               then tr1 @ [Log WARNING ''Article body text extraction failed or text too short for URL: {url}'']
               else
                 (case translate_title cfg w ''Translating title for {url}...'' title tr1 of
                    (translated_title_english, tr2) \<Rightarrow>
                      (case translate_text cfg w article_text_dhivehi False
                              (tr2 @ [Log INFO ''Translating article body from {url}...'']) of
                         (translation_english_body, tr3) \<Rightarrow>
                           (case translation_english_body of
                              None \<Rightarrow>
                                tr3 @ [Log WARNING ''Translation of body failed for article from {url}.'']
                            | Some body \<Rightarrow>
                                if body = []
                                then tr3 @ [Log WARNING ''Translation of body failed for article from {url}.'']
                                else
                                  send_telegram_message_telethon w TargetChannel
                                    (message_to_send translated_title_english body url)
                                    (tr3 @ [Log INFO ''Sending translation for {url} to target: {TARGET_CHANNEL_ENV}''])
                                  @ [Log INFO ''Translation for {url} sent successfully.''])))))"

text \<open>
  The manual command. \<open>event.reply\<close> is not inside a \<open>try\<close>: when it raises, the handler
  ends there, which is the outcome \<open>Raised\<close>.
\<close>

datatype outcome = Returned | Raised

record command_event =
  command_chat_id :: int
  pattern_match_group_1 :: string

definition event_reply :: "world \<Rightarrow> string \<Rightarrow> effect list \<Rightarrow> bool \<times> effect list" where
  "event_reply w msg tr = (reply w tr msg, tr @ [Reply msg (reply w tr msg)])"

definition reply_and_return :: "world \<Rightarrow> string \<Rightarrow> effect list \<Rightarrow> outcome \<times> effect list" where
  "reply_and_return w msg tr =
     (case event_reply w msg tr of
        (True, tr1) \<Rightarrow> (Returned, tr1)
      | (False, tr1) \<Rightarrow> (Raised, tr1))"

definition manual_translate_handler ::
  "config \<Rightarrow> world \<Rightarrow> command_event \<Rightarrow> effect list \<Rightarrow> outcome \<times> effect list" where
  "manual_translate_handler cfg w event tr =
     (case first_url (strip (pattern_match_group_1 event)) of
        None \<Rightarrow>
          reply_and_return w
            ''Please provide a URL after the /translate command. Example: `/translate https://example.com/article`''
            tr
      | Some url \<Rightarrow>
          (case event_reply w (''Processing manual translation for: '' @ url @ ''...'')
                  (tr @ [Log INFO ''Manual /translate command received for URL: {url} in chat {event.chat_id}'']) of
             (False, tr1) \<Rightarrow> (Raised, tr1)
           | (True, tr1) \<Rightarrow>
               (case fetch_article_text w url tr1 of
                  ((title, article_text_dhivehi), tr2) \<Rightarrow>
                    if too_short 30 article_text_dhivehi
                    then reply_and_return w
                           (''Could not extract enough article body text from '' @ url
                              @ ''. Please check the URL or try another.'')
                           (tr2 @ [Log WARNING ''Manual Translate: Article body text extraction failed or text too short for URL: {url}''])
                    else
                      (case translate_title cfg w ''Manual Translate: Translating title for {url}...''
                              title tr2 of
                         (translated_title_english, tr3) \<Rightarrow>
                           (case translate_text cfg w article_text_dhivehi False
                                   (tr3 @ [Log INFO ''Manual Translate: Translating article body from {url}...'']) of
                              (translation_english_body, tr4) \<Rightarrow>
                                if \<not> truthy translation_english_body
                                then reply_and_return w
                                       (''Translation of body failed for '' @ url
                                          @ ''. The translation service might be unavailable or the content is not translatable.'')
                                       (tr4 @ [Log WARNING ''Manual Translate: Translation of body failed for article from {url}.''])
                                else
                                  (Returned,
                                   send_telegram_message_telethon w (Chat (command_chat_id event))
                                     (message_to_send translated_title_english
                                        (case translation_english_body of None \<Rightarrow> [] | Some body \<Rightarrow> body) url)
                                     (tr4 @ [Log INFO ''Manual Translate: Sending translation for {url} to chat {event.chat_id}''])
                                   @ [Log INFO ''Manual Translate: Translation for {url} sent successfully to chat {event.chat_id}.'']))))))"

section \<open>Observations on a trace\<close>

definition is_send_message :: "effect \<Rightarrow> bool" where
  "is_send_message e = (case e of SendMessage entity msg sent \<Rightarrow> True | _ \<Rightarrow> False)"

definition is_provider_call :: "effect \<Rightarrow> bool" where
  "is_provider_call e = (case e of ProviderCall p req \<Rightarrow> True | _ \<Rightarrow> False)"

text \<open>The texts handed to \<open>client.send_message\<close>, in order.\<close>

definition sent_texts :: "effect list \<Rightarrow> string list" where
  "sent_texts tr = concat (map (\<lambda>e. case e of SendMessage entity msg sent \<Rightarrow> [msg] | _ \<Rightarrow> []) tr)"

section \<open>Example inputs\<close>

definition example_config :: config where
  "example_config =
     \<lparr> TRANSLATION_PROVIDER = ''openai'', OPENAI_API_KEY = Some ''sk-test'',
       ANTHROPIC_API_KEY = None, OPENAI_MODEL_NAME = ''gpt-3.5-turbo'',
       ANTHROPIC_MODEL_NAME = ''claude-3-haiku-20240307'' \<rparr>"

definition example_body :: string where
  "example_body = ''A Dhivehi article body that is long enough to be translated.''"

definition example_document :: "node list" where
  "example_document =
     [Tag ''h1'' [''text-waheed'', ''text-black-two''] [NavigableString ''Title''],
      Tag ''article'' [] [NavigableString example_body]]"

definition short_document :: "node list" where
  "short_document =
     [Tag ''h1'' [''text-waheed'', ''text-black-two''] [NavigableString ''Title''],
      Tag ''article'' [] [NavigableString ''Too short'']]"

text \<open>
  A world that serves \<open>doc\<close> for every URL, answers a title request (\<open>max_tokens\<close>
  1000) with \<open>title_answer\<close> and a body request with \<open>body_answer\<close>, and in which
  sending succeeds exactly when \<open>sending\<close>.
\<close>

definition example_world :: "node list \<Rightarrow> api_result \<Rightarrow> api_result \<Rightarrow> bool \<Rightarrow> world" where
  "example_world doc title_answer body_answer sending =
     \<lparr> http_get = (\<lambda>tr url. HttpResponse 200 (Some doc)),
       openai_create = (\<lambda>tr req. if max_tokens req = 1000 then title_answer else body_answer),
       anthropic_create = (\<lambda>tr req. ApiRaised),
       send_message = (\<lambda>tr entity msg. sending),
       reply = (\<lambda>tr msg. True) \<rparr>"

definition example_post :: new_message_event where
  "example_post = \<lparr> chat_id = - 1001, message_text = Some ''New article https://mihaaru.com/news/1'' \<rparr>"

definition example_command :: command_event where
  "example_command = \<lparr> command_chat_id = 42, pattern_match_group_1 = ''https://mihaaru.com/news/1'' \<rparr>"




section \<open>The splitting loop\<close>

declare split_loop.simps [simp del]

lemma rfind_scan_none:
  "(rfind_scan s c start n = - 1) = (\<forall>i<n. s ! (start + i) \<noteq> c)"
  by (induction n) (auto simp: less_Suc_eq)

lemma rfind_scan_range:
  "rfind_scan s c start n \<noteq> - 1 \<Longrightarrow>
     int start \<le> rfind_scan s c start n \<and> rfind_scan s c start n < int (start + n)"
  by (induction n) (auto split: if_splits)

lemma rfind_scan_last:
  "start \<le> j \<Longrightarrow> j < start + n \<Longrightarrow> s ! j = c \<Longrightarrow>
   (\<forall>i. j < i \<and> i < start + n \<longrightarrow> s ! i \<noteq> c) \<Longrightarrow> rfind_scan s c start n = int j"
proof (induction n)
  case 0
  then show ?case by simp
next
  case (Suc n)
  show ?case
  proof (cases "j = start + n")
    case True
    with Suc.prems show ?thesis by simp
  next
    case False
    with Suc.prems have "j < start + n" by simp
    moreover from Suc.prems False have "s ! (start + n) \<noteq> c" by simp
    ultimately show ?thesis using Suc by simp
  qed
qed

lemma split_at_none:
  "current_pos + MAX_MESSAGE_LENGTH < length msg \<Longrightarrow>
   (split_at msg current_pos = - 1) =
     (\<forall>i. current_pos \<le> i \<and> i < current_pos + MAX_MESSAGE_LENGTH \<longrightarrow> msg ! i \<noteq> newline)"
  apply (simp add: split_at_def rfind_def rfind_scan_none)
  apply (rule iffI)
   apply clarify
   apply (drule_tac x = "i - current_pos" in spec)
   apply simp
  apply simp
  done

lemma split_at_range:
  "split_at msg current_pos \<noteq> - 1 \<Longrightarrow>
     int current_pos \<le> split_at msg current_pos
     \<and> split_at msg current_pos < int (current_pos + MAX_MESSAGE_LENGTH)
     \<and> split_at msg current_pos < int (length msg)"
  using rfind_scan_range [of msg newline current_pos
          "min (current_pos + MAX_MESSAGE_LENGTH) (length msg) - current_pos"]
  by (auto simp: split_at_def rfind_def)

lemma split_at_last:
  "current_pos + MAX_MESSAGE_LENGTH < length msg \<Longrightarrow> current_pos \<le> j \<Longrightarrow>
   j < current_pos + MAX_MESSAGE_LENGTH \<Longrightarrow> msg ! j = newline \<Longrightarrow>
   (\<forall>i. j < i \<and> i < current_pos + MAX_MESSAGE_LENGTH \<longrightarrow> msg ! i \<noteq> newline) \<Longrightarrow>
   split_at msg current_pos = int j"
  by (simp add: split_at_def rfind_def rfind_scan_last)

lemma split_at_newline:
  "split_at msg current_pos \<noteq> - 1 \<Longrightarrow> msg ! nat (split_at msg current_pos) = newline"
proof -
  have "rfind_scan s c start n \<noteq> - 1 \<Longrightarrow> s ! nat (rfind_scan s c start n) = c" for s c start n
    by (induction n) (auto split: if_splits simp flip: of_nat_add)
  then show "split_at msg current_pos \<noteq> - 1 \<Longrightarrow> msg ! nat (split_at msg current_pos) = newline"
    by (simp add: split_at_def rfind_def)
qed

lemma split_step_advances: "current_pos < snd (split_step msg current_pos)"
  by (auto simp: split_step_def MAX_MESSAGE_LENGTH_def)

lemma split_step_part_nonempty:
  "current_pos + MAX_MESSAGE_LENGTH < length msg \<Longrightarrow> fst (split_step msg current_pos) \<noteq> []"
  using split_at_range [of msg current_pos]
  by (auto simp: split_step_def slice_def MAX_MESSAGE_LENGTH_def)

lemma split_step_part_length:
  "length (fst (split_step msg current_pos)) \<le> MAX_MESSAGE_LENGTH"
  using split_at_range [of msg current_pos]
  by (auto simp: split_step_def slice_def)

lemma split_induct [case_names step]:
  assumes "\<And>pos. (pos < length msg \<Longrightarrow> pos + MAX_MESSAGE_LENGTH < length msg \<Longrightarrow>
                    P (snd (split_step msg pos))) \<Longrightarrow> P pos"
  shows "P pos"
proof (induction "length msg - pos" arbitrary: pos rule: less_induct)
  case less
  show ?case
  proof (rule assms)
    assume "pos < length msg"
    then have "length msg - snd (split_step msg pos) < length msg - pos"
      using split_step_advances [of pos msg] by arith
    then show "P (snd (split_step msg pos))" by (rule less)
  qed
qed

lemma split_loop_parts:
  "split_loop msg current_pos parts = parts @ split_loop msg current_pos []"
proof (induction current_pos arbitrary: parts rule: split_induct [where msg = msg])
  case (step pos)
  show ?case
  proof (cases "pos < length msg \<and> pos + MAX_MESSAGE_LENGTH < length msg")
    case True
    have "split_loop msg pos parts =
        split_loop msg (snd (split_step msg pos)) (parts @ [fst (split_step msg pos)])"
      using True by (subst split_loop.simps) simp
    also have "\<dots> = (parts @ [fst (split_step msg pos)])
        @ split_loop msg (snd (split_step msg pos)) []"
      using True by (intro step) auto
    also have "\<dots> = parts @ split_loop msg (snd (split_step msg pos)) [fst (split_step msg pos)]"
      using True step [of "[fst (split_step msg pos)]"] by simp
    also have "\<dots> = parts @ split_loop msg pos []"
      using True by (subst (2) split_loop.simps) simp
    finally show ?thesis .
  next
    case False
    then show ?thesis
      by (subst split_loop.simps, subst (2) split_loop.simps) auto
  qed
qed

lemma split_loop_unfold:
  "split_loop msg pos [] =
     (if pos < length msg then
        (if length msg \<le> pos + MAX_MESSAGE_LENGTH then [drop pos msg]
         else fst (split_step msg pos) # split_loop msg (snd (split_step msg pos)) [])
      else [])"
  by (subst split_loop.simps, subst split_loop_parts) simp

lemma split_loop_lengths:
  "\<forall>p\<in>set (split_loop msg pos []). length p \<le> MAX_MESSAGE_LENGTH"
proof (induction pos rule: split_induct [where msg = msg])
  case (step pos)
  then show ?case
    by (subst split_loop_unfold) (auto simp: split_step_part_length)
qed

lemma split_loop_nonempty:
  "\<forall>p\<in>set (split_loop msg pos []). p \<noteq> []"
proof (induction pos rule: split_induct [where msg = msg])
  case (step pos)
  then show ?case
    by (subst split_loop_unfold) (auto simp: split_step_part_nonempty)
qed

lemma split_step_content:
  assumes "pos + MAX_MESSAGE_LENGTH < length msg" and "\<not> P newline"
  shows "filter P (fst (split_step msg pos)) @ filter P (drop (snd (split_step msg pos)) msg)
         = filter P (drop pos msg)"
proof (cases "split_at msg pos \<noteq> - 1 \<and> split_at msg pos > int pos")
  case True
  define j where "j = nat (split_at msg pos)"
  from True have j: "pos < j" "j < length msg" "msg ! j = newline"
    using split_at_range [of msg pos] split_at_newline [of msg pos] by (auto simp: j_def)
  have "drop pos msg = take (j - pos) (drop pos msg) @ drop j msg"
    using j by (metis append_take_drop_id drop_drop le_add_diff_inverse2 less_imp_le_nat)
  moreover have "drop j msg = msg ! j # drop (Suc j) msg"
    using j Cons_nth_drop_Suc [of j msg] by simp
  ultimately have "filter P (drop pos msg)
      = filter P (take (j - pos) (drop pos msg)) @ filter P (drop (Suc j) msg)"
    using j assms(2) by (metis filter.simps(2) filter_append)
  with True show ?thesis
    by (simp add: split_step_def slice_def j_def)
next
  case False
  have "drop pos msg = take MAX_MESSAGE_LENGTH (drop pos msg) @ drop (pos + MAX_MESSAGE_LENGTH) msg"
    by (metis append_take_drop_id drop_drop add.commute)
  then have "filter P (drop pos msg) = filter P (take MAX_MESSAGE_LENGTH (drop pos msg))
      @ filter P (drop (pos + MAX_MESSAGE_LENGTH) msg)"
    by (metis filter_append)
  with False show ?thesis
    by (auto simp: split_step_def slice_def)
qed

lemma split_loop_content:
  assumes "\<not> P newline"
  shows "filter P (concat (split_loop msg pos [])) = filter P (drop pos msg)"
proof (induction pos rule: split_induct [where msg = msg])
  case (step pos)
  show ?case
  proof (cases "pos < length msg \<and> pos + MAX_MESSAGE_LENGTH < length msg")
    case True
    then show ?thesis
      using step assms split_step_content [of pos msg P]
      by (subst split_loop_unfold) simp
  next
    case False
    then show ?thesis
      by (subst split_loop_unfold) auto
  qed
qed

lemma split_step_newline:
  assumes "pos + MAX_MESSAGE_LENGTH < length msg" "pos < j" "j < pos + MAX_MESSAGE_LENGTH"
    "msg ! j = newline" "\<forall>i. j < i \<and> i < pos + MAX_MESSAGE_LENGTH \<longrightarrow> msg ! i \<noteq> newline"
  shows "split_step msg pos = (slice msg pos j, j + 1)"
proof -
  have "split_at msg pos = int j"
    using assms by (intro split_at_last) auto
  then show ?thesis using assms by (simp add: split_step_def)
qed

lemma split_step_hard_cut:
  assumes "pos + MAX_MESSAGE_LENGTH < length msg"
    "\<forall>i. pos < i \<and> i < pos + MAX_MESSAGE_LENGTH \<longrightarrow> msg ! i \<noteq> newline"
  shows "split_step msg pos = (slice msg pos (pos + MAX_MESSAGE_LENGTH), pos + MAX_MESSAGE_LENGTH)"
proof (cases "split_at msg pos = - 1")
  case True
  then show ?thesis by (simp add: split_step_def)
next
  case False
  have "\<not> int pos < split_at msg pos"
  proof
    assume gt: "int pos < split_at msg pos"
    then have "pos < nat (split_at msg pos)" "nat (split_at msg pos) < pos + MAX_MESSAGE_LENGTH"
      using split_at_range [OF False] by auto
    with assms(2) have "msg ! nat (split_at msg pos) \<noteq> newline" by blast
    with split_at_newline [OF False] show False by simp
  qed
  then show ?thesis by (simp add: split_step_def)
qed


lemma split_message_replicate:
  assumes "c \<noteq> newline"
  shows "split_message (replicate 4001 c) = [replicate 4000 c, [c]]"
proof -
  have "split_step (replicate 4001 c) 0 = (slice (replicate 4001 c) 0 (0 + MAX_MESSAGE_LENGTH), 0 + MAX_MESSAGE_LENGTH)"
    using assms by (intro split_step_hard_cut) (auto simp: MAX_MESSAGE_LENGTH_def)
  then have step: "split_step (replicate 4001 c) 0 = (replicate 4000 c, 4000)"
    by (simp add: slice_def MAX_MESSAGE_LENGTH_def)
  have "split_loop (replicate 4001 c) 0 [] = replicate 4000 c # split_loop (replicate 4001 c) 4000 []"
    by (subst split_loop_unfold) (simp add: step MAX_MESSAGE_LENGTH_def)
  also have "split_loop (replicate 4001 c) 4000 [] = [[c]]"
    by (subst split_loop_unfold) (simp add: MAX_MESSAGE_LENGTH_def)
  finally show ?thesis by (simp add: split_message_def)
qed

text \<open>
  Claim C2, as stated, fails: in the text of a newline followed by 4000 letters, the
  window of the first part holds a newline (\<open>rfind\<close> finds it at index 0, the current
  position), and still the part is cut at the length boundary, because the source takes a
  newline only when \<open>split_at > current_pos\<close>.
\<close>

theorem split_message_newline_at_window_start:
  "split_at (newline # replicate 4000 (CHR ''a'')) 0 = 0
   \<and> split_message (newline # replicate 4000 (CHR ''a''))
       = [newline # replicate 3999 (CHR ''a''), [CHR ''a'']]"
proof -
  let ?t = "newline # replicate 4000 (CHR ''a'')"
  have a: "CHR ''a'' \<noteq> newline" by (simp add: newline_def)
  have at: "split_at ?t 0 = int 0"
    using a by (intro split_at_last) (auto simp: MAX_MESSAGE_LENGTH_def nth_Cons')
  then have step: "split_step ?t 0 = (newline # replicate 3999 (CHR ''a''), 4000)"
    by (simp add: split_step_def slice_def MAX_MESSAGE_LENGTH_def)
  have "split_loop ?t 0 [] = (newline # replicate 3999 (CHR ''a'')) # split_loop ?t 4000 []"
    by (subst split_loop_unfold) (simp add: step MAX_MESSAGE_LENGTH_def)
  also have "split_loop ?t 4000 [] = [[CHR ''a'']]"
    by (subst split_loop_unfold) (simp add: MAX_MESSAGE_LENGTH_def)
  finally show ?thesis using at by (simp add: split_message_def)
qed

text \<open>
  Claim C2, amended: every part is at most 4000 characters long; the parts, concatenated
  in order, hold all characters of the text but newlines, in order (so all that is not
  white space); and the loop at a position with more than 4000 characters left breaks at
  the last newline of the window that lies strictly after the position, cuts at the length
  boundary when there is none, and ends with the rest of the text as the last part.
\<close>

theorem split_message_greedy:
  "(\<forall>p\<in>set (split_message msg). length p \<le> MAX_MESSAGE_LENGTH)
   \<and> filter (\<lambda>c. c \<noteq> newline) (concat (split_message msg)) = filter (\<lambda>c. c \<noteq> newline) msg
   \<and> filter (\<lambda>c. \<not> isspace c) (concat (split_message msg)) = filter (\<lambda>c. \<not> isspace c) msg
   \<and> (\<forall>pos j. pos + MAX_MESSAGE_LENGTH < length msg \<and> pos < j \<and> j < pos + MAX_MESSAGE_LENGTH
          \<and> msg ! j = newline
          \<and> (\<forall>i. j < i \<and> i < pos + MAX_MESSAGE_LENGTH \<longrightarrow> msg ! i \<noteq> newline)
        \<longrightarrow> split_loop msg pos [] = slice msg pos j # split_loop msg (j + 1) [])
   \<and> (\<forall>pos. pos + MAX_MESSAGE_LENGTH < length msg
          \<and> (\<forall>i. pos < i \<and> i < pos + MAX_MESSAGE_LENGTH \<longrightarrow> msg ! i \<noteq> newline)
        \<longrightarrow> split_loop msg pos []
            = slice msg pos (pos + MAX_MESSAGE_LENGTH) # split_loop msg (pos + MAX_MESSAGE_LENGTH) [])
   \<and> (\<forall>pos. pos < length msg \<and> length msg \<le> pos + MAX_MESSAGE_LENGTH
        \<longrightarrow> split_loop msg pos [] = [drop pos msg])"
proof (intro conjI allI impI)
  show "\<forall>p\<in>set (split_message msg). length p \<le> MAX_MESSAGE_LENGTH"
    by (simp add: split_message_def split_loop_lengths)
  show "filter (\<lambda>c. c \<noteq> newline) (concat (split_message msg)) = filter (\<lambda>c. c \<noteq> newline) msg"
    by (simp add: split_message_def split_loop_content)
  show "filter (\<lambda>c. \<not> isspace c) (concat (split_message msg)) = filter (\<lambda>c. \<not> isspace c) msg"
    by (simp add: split_message_def split_loop_content isspace_def newline_def)
next
  fix pos j
  assume "pos + MAX_MESSAGE_LENGTH < length msg \<and> pos < j \<and> j < pos + MAX_MESSAGE_LENGTH
          \<and> msg ! j = newline
          \<and> (\<forall>i. j < i \<and> i < pos + MAX_MESSAGE_LENGTH \<longrightarrow> msg ! i \<noteq> newline)"
  then have "split_step msg pos = (slice msg pos j, j + 1)"
    by (intro split_step_newline) auto
  then show "split_loop msg pos [] = slice msg pos j # split_loop msg (j + 1) []"
    using \<open>pos + MAX_MESSAGE_LENGTH < length msg \<and> _\<close>
    by (subst split_loop_unfold) simp
next
  fix pos
  assume a: "pos + MAX_MESSAGE_LENGTH < length msg
          \<and> (\<forall>i. pos < i \<and> i < pos + MAX_MESSAGE_LENGTH \<longrightarrow> msg ! i \<noteq> newline)"
  then have "split_step msg pos = (slice msg pos (pos + MAX_MESSAGE_LENGTH), pos + MAX_MESSAGE_LENGTH)"
    by (intro split_step_hard_cut) auto
  then show "split_loop msg pos []
            = slice msg pos (pos + MAX_MESSAGE_LENGTH) # split_loop msg (pos + MAX_MESSAGE_LENGTH) []"
    using a by (subst split_loop_unfold) simp
next
  fix pos
  assume "pos < length msg \<and> length msg \<le> pos + MAX_MESSAGE_LENGTH"
  then show "split_loop msg pos [] = [drop pos msg]"
    by (subst split_loop_unfold) simp
qed

text \<open>Claim C2, witness: a break at a newline, a last part, and a hard cut.\<close>

theorem split_message_greedy_witness:
  "split_loop (replicate 3999 (CHR ''a'') @ newline # replicate 4000 (CHR ''b'')) 0 []
     = replicate 3999 (CHR ''a'')
       # split_loop (replicate 3999 (CHR ''a'') @ newline # replicate 4000 (CHR ''b'')) 4000 []
   \<and> split_loop (replicate 3999 (CHR ''a'') @ newline # replicate 4000 (CHR ''b'')) 4000 []
     = [replicate 4000 (CHR ''b'')]
   \<and> split_loop (replicate 4001 (CHR ''a'')) 0 []
     = replicate 4000 (CHR ''a'') # split_loop (replicate 4001 (CHR ''a'')) 4000 []"
proof -
  let ?t = "replicate 3999 (CHR ''a'') @ newline # replicate 4000 (CHR ''b'')"
  let ?u = "replicate 4001 (CHR ''a'')"
  have b: "CHR ''b'' \<noteq> newline" "CHR ''a'' \<noteq> newline" by (simp_all add: newline_def)
  have 1: "split_loop ?t 0 [] = slice ?t 0 3999 # split_loop ?t (3999 + 1) []"
    by (rule split_message_greedy [of ?t, THEN conjunct2, THEN conjunct2, THEN conjunct2, THEN conjunct1,
                 rule_format, of 0 3999])
       (simp add: MAX_MESSAGE_LENGTH_def nth_append b)
  have 2: "split_loop ?t 4000 [] = [drop 4000 ?t]"
    by (rule split_message_greedy [of ?t, THEN conjunct2, THEN conjunct2, THEN conjunct2, THEN conjunct2,
                 THEN conjunct2, rule_format, of 4000])
       (simp add: MAX_MESSAGE_LENGTH_def)
  have 3: "split_loop ?u 0 []
     = slice ?u 0 (0 + MAX_MESSAGE_LENGTH) # split_loop ?u (0 + MAX_MESSAGE_LENGTH) []"
    by (rule split_message_greedy [of ?u, THEN conjunct2, THEN conjunct2, THEN conjunct2, THEN conjunct2,
                 THEN conjunct1, rule_format, of 0])
       (simp add: MAX_MESSAGE_LENGTH_def b)
  show ?thesis using 1 2 3 by (simp add: slice_def MAX_MESSAGE_LENGTH_def)
qed

text \<open>
  Claim C10: \<open>split_loop\<close> is a total function (its termination is proved with the
  definition); the new position of an iteration is strictly after the old one, whichever
  branch is taken; and every part is a non-empty string.
\<close>

theorem split_loop_progress:
  "current_pos < snd (split_step msg current_pos)
   \<and> (current_pos + MAX_MESSAGE_LENGTH < length msg \<longrightarrow> fst (split_step msg current_pos) \<noteq> [])
   \<and> (\<forall>p\<in>set (split_loop msg current_pos []). p \<noteq> [])
   \<and> (\<forall>p\<in>set (split_message msg). p \<noteq> [])"
  by (simp add: split_step_advances split_step_part_nonempty split_loop_nonempty split_message_def)


lemma sent_texts_append: "sent_texts (a @ b) = sent_texts a @ sent_texts b"
  by (simp add: sent_texts_def)

lemma sent_texts_send_part: "sent_texts (send_part entity n i part sent) = [part]"
  by (simp add: sent_texts_def send_part_def)

lemma send_parts_texts:
  "sent_texts (send_parts w entity n i parts tr) = sent_texts tr @ parts"
  by (induction parts arbitrary: i tr) (simp_all add: sent_texts_append sent_texts_send_part)

lemma send_parts_trace:
  assumes B: "\<And>i part sent. B (i, part, sent) = send_part entity n i part sent"
  shows "\<exists>oks. length oks = length parts
     \<and> send_parts w entity n i parts tr
       = tr @ concat (map B (zip [i..<i + length parts] (zip parts oks)))
     \<and> (\<forall>k<length parts.
           oks ! k = send_message w
                       (tr @ concat (map B (take k (zip [i..<i + length parts] (zip parts oks))))
                           @ [Log INFO ''Sending part {i+1}/{len(parts)} to {entity}''])
                       entity (parts ! k))"
proof (induction parts arbitrary: i tr)
  case Nil
  then show ?case by simp
next
  case (Cons part rest)
  define ok where "ok = send_message w
     (tr @ [Log INFO ''Sending part {i+1}/{len(parts)} to {entity}'']) entity part"
  define tr' where "tr' = tr @ B (i, part, ok)"
  obtain oks where oks: "length oks = length rest"
    "send_parts w entity n (i + 1) rest tr'
     = tr' @ concat (map B (zip [i + 1..<i + 1 + length rest] (zip rest oks)))"
    "\<forall>k<length rest.
           oks ! k = send_message w
                       (tr' @ concat (map B (take k (zip [i + 1..<i + 1 + length rest] (zip rest oks))))
                           @ [Log INFO ''Sending part {i+1}/{len(parts)} to {entity}''])
                       entity (rest ! k)"
    using Cons.IH [of "i + 1" tr'] by blast
  have upt: "[i..<i + length (part # rest)] = i # [i + 1..<i + 1 + length rest]"
    by (simp add: upt_rec)
  show ?case
  proof (intro exI conjI allI impI)
    show "length (ok # oks) = length (part # rest)" using oks by simp
    show "send_parts w entity n i (part # rest) tr
       = tr @ concat (map B (zip [i..<i + length (part # rest)] (zip (part # rest) (ok # oks))))"
      unfolding upt using oks(2) by (simp add: ok_def tr'_def B)
    fix k assume k: "k < length (part # rest)"
    show "(ok # oks) ! k = send_message w
             (tr @ concat (map B (take k (zip [i..<i + length (part # rest)]
                                            (zip (part # rest) (ok # oks)))))
                 @ [Log INFO ''Sending part {i+1}/{len(parts)} to {entity}''])
             entity ((part # rest) ! k)"
    proof (cases k)
      case 0
      then show ?thesis by (simp add: ok_def)
    next
      case (Suc k')
      with k have "k' < length rest" by simp
      with oks(3) have "oks ! k' = send_message w
                       (tr' @ concat (map B (take k' (zip [i + 1..<i + 1 + length rest] (zip rest oks))))
                           @ [Log INFO ''Sending part {i+1}/{len(parts)} to {entity}''])
                       entity (rest ! k')" by blast
      then show ?thesis unfolding upt by (simp add: Suc tr'_def)
    qed
  qed
qed

text \<open>
  Claim C6, amended: a text longer than 4000 characters is delivered as its parts in
  their order. After the first log line the trace is one block per part: the log line of
  the part and the attempt to send it, then a delay of one second when the part was sent
  and is not the last, or the error log when the send raised, with no delay. Each outcome
  is what the client answers after the blocks before it, so every part is attempted
  whatever happened to the earlier ones.
\<close>

theorem multi_part_delivery:
  assumes "MAX_MESSAGE_LENGTH < length msg"
  shows "(\<exists>oks. length oks = length (split_message msg)
            \<and> send_telegram_message_telethon w entity msg tr
              = tr @ [Log INFO ''Message is too long ({len(text)} chars). Splitting into multiple messages.'']
                   @ concat (map (\<lambda>(i, part, sent).
                                    if sent
                                    then [Log INFO ''Sending part {i+1}/{len(parts)} to {entity}'',
                                          SendMessage entity part True]
                                         @ (if i + 1 < length (split_message msg) then [Sleep 1] else [])
                                    else [Log INFO ''Sending part {i+1}/{len(parts)} to {entity}'',
                                          SendMessage entity part False,
                                          Log ERROR ''Failed to send part {i+1} of message to {entity}: {e}''])
                               (zip [0..<length (split_message msg)]
                                    (zip (split_message msg) oks)))
            \<and> (\<forall>k<length (split_message msg).
                  oks ! k
                  = send_message w
                      (tr @ [Log INFO ''Message is too long ({len(text)} chars). Splitting into multiple messages.'']
                          @ concat (map (\<lambda>(i, part, sent).
                                    if sent
                                    then [Log INFO ''Sending part {i+1}/{len(parts)} to {entity}'',
                                          SendMessage entity part True]
                                         @ (if i + 1 < length (split_message msg) then [Sleep 1] else [])
                                    else [Log INFO ''Sending part {i+1}/{len(parts)} to {entity}'',
                                          SendMessage entity part False,
                                          Log ERROR ''Failed to send part {i+1} of message to {entity}: {e}''])
                               (take k (zip [0..<length (split_message msg)]
                                            (zip (split_message msg) oks))))
                          @ [Log INFO ''Sending part {i+1}/{len(parts)} to {entity}''])
                      entity (split_message msg ! k)))
         \<and> sent_texts (send_telegram_message_telethon w entity msg tr)
             = sent_texts tr @ split_message msg"
proof -
  define n where "n = length (split_message msg)"
  define B where "B = (\<lambda>(i, part, sent).
                                    if sent
                                    then [Log INFO ''Sending part {i+1}/{len(parts)} to {entity}'',
                                          SendMessage entity part True]
                                         @ (if i + 1 < n then [Sleep 1] else [])
                                    else [Log INFO ''Sending part {i+1}/{len(parts)} to {entity}'',
                                          SendMessage entity part False,
                                          Log ERROR ''Failed to send part {i+1} of message to {entity}: {e}''])"
  have B: "B (i, part, sent) = send_part entity n i part sent" for i part sent
    by (auto simp: B_def send_part_def)
  have eq: "send_telegram_message_telethon w entity msg tr
     = send_parts w entity n 0 (split_message msg)
         (tr @ [Log INFO ''Message is too long ({len(text)} chars). Splitting into multiple messages.''])"
    using assms by (simp add: send_telegram_message_telethon_def n_def)
  have texts: "sent_texts (send_telegram_message_telethon w entity msg tr)
             = sent_texts tr @ split_message msg"
    by (simp add: eq send_parts_texts sent_texts_append) (simp add: sent_texts_def)
  from send_parts_trace [of B entity n "split_message msg" w 0
            "tr @ [Log INFO ''Message is too long ({len(text)} chars). Splitting into multiple messages.'']",
          OF B]
  show ?thesis
    unfolding eq B_def n_def [symmetric] using texts [unfolded eq] by (simp add: n_def)
qed

text \<open>
  Claim C6, witness: a text of 4001 letters, every send succeeding: two parts with one
  delay between them and none after the last.
\<close>

theorem multi_part_delivery_witness:
  "send_telegram_message_telethon (example_world example_document ApiRaised ApiRaised True)
     TargetChannel (replicate 4001 (CHR ''a'')) []
   = [Log INFO ''Message is too long ({len(text)} chars). Splitting into multiple messages.'',
      Log INFO ''Sending part {i+1}/{len(parts)} to {entity}'',
      SendMessage TargetChannel (replicate 4000 (CHR ''a'')) True,
      Sleep 1,
      Log INFO ''Sending part {i+1}/{len(parts)} to {entity}'',
      SendMessage TargetChannel ''a'' True]"
proof -
  let ?w = "example_world example_document ApiRaised ApiRaised True"
  let ?m = "replicate 4001 (CHR ''a'')"
  let ?B = "\<lambda>(i, part, sent).
              if sent
              then [Log INFO ''Sending part {i+1}/{len(parts)} to {entity}'',
                    SendMessage TargetChannel part True]
                   @ (if i + 1 < length (split_message ?m) then [Sleep 1] else [])
              else [Log INFO ''Sending part {i+1}/{len(parts)} to {entity}'',
                    SendMessage TargetChannel part False,
                    Log ERROR ''Failed to send part {i+1} of message to {entity}: {e}'']"
  have len: "MAX_MESSAGE_LENGTH < length ?m"
    by (simp add: MAX_MESSAGE_LENGTH_def)
  have a: "CHR ''a'' \<noteq> newline" by (simp add: newline_def)
  note parts = split_message_replicate [OF a]
  have ok: "send_message ?w tr entity msg" for tr entity msg
    by (simp add: example_world_def)
  from multi_part_delivery [OF len, of ?w TargetChannel "[]", THEN conjunct1]
  obtain oks where oks: "length oks = length (split_message ?m)"
    and tr: "send_telegram_message_telethon ?w TargetChannel ?m []
              = [] @ [Log INFO ''Message is too long ({len(text)} chars). Splitting into multiple messages.'']
                   @ concat (map ?B (zip [0..<length (split_message ?m)] (zip (split_message ?m) oks)))"
    and all: "\<forall>k<length (split_message ?m).
                oks ! k
                = send_message ?w
                    ([] @ [Log INFO ''Message is too long ({len(text)} chars). Splitting into multiple messages.'']
                        @ concat (map ?B (take k (zip [0..<length (split_message ?m)]
                                                     (zip (split_message ?m) oks))))
                        @ [Log INFO ''Sending part {i+1}/{len(parts)} to {entity}''])
                    TargetChannel (split_message ?m ! k)"
    by blast
  from oks have "length oks = Suc (Suc 0)" by (simp add: parts)
  then obtain o0 o1 where o: "oks = [o0, o1]"
    by (auto simp: length_Suc_conv)
  from all have "\<forall>k<Suc (Suc 0). oks ! k" by (simp add: ok parts)
  with o have "o0" "o1" by (auto simp: less_Suc_eq)
  then show ?thesis unfolding tr o parts by (simp add: upt_rec)
qed

text \<open>
  Claim C6, as stated, fails: when sending the first of two parts raises, the second part
  is attempted with no delay between the two.
\<close>

theorem no_delay_after_failed_part:
  "send_telegram_message_telethon (example_world example_document ApiRaised ApiRaised False)
     TargetChannel (replicate 4001 (CHR ''a'')) []
   = [Log INFO ''Message is too long ({len(text)} chars). Splitting into multiple messages.'',
      Log INFO ''Sending part {i+1}/{len(parts)} to {entity}'',
      SendMessage TargetChannel (replicate 4000 (CHR ''a'')) False,
      Log ERROR ''Failed to send part {i+1} of message to {entity}: {e}'',
      Log INFO ''Sending part {i+1}/{len(parts)} to {entity}'',
      SendMessage TargetChannel ''a'' False,
      Log ERROR ''Failed to send part {i+1} of message to {entity}: {e}'']"
proof -
  have a: "CHR ''a'' \<noteq> newline" by (simp add: newline_def)
  show ?thesis
    by (simp add: send_telegram_message_telethon_def MAX_MESSAGE_LENGTH_def
          split_message_replicate [OF a] send_part_def example_world_def)
qed

text \<open>
  Claim C8: a text of at most 4000 characters is handed to \<open>client.send_message\<close>
  once, unchanged, and nothing else is sent.
\<close>

theorem single_part_delivery:
  assumes "length msg \<le> MAX_MESSAGE_LENGTH"
  shows "send_telegram_message_telethon w entity msg tr
           = tr @ (if send_message w tr entity msg
                   then [SendMessage entity msg True]
                   else [SendMessage entity msg False,
                         Log ERROR ''Failed to send message to {entity}: {e}''])
         \<and> sent_texts (send_telegram_message_telethon w entity msg tr) = sent_texts tr @ [msg]"
  using assms by (simp add: send_telegram_message_telethon_def sent_texts_def)

text \<open>Claim C8, witness.\<close>

theorem single_part_delivery_witness:
  "length ''Hello'' \<le> MAX_MESSAGE_LENGTH
   \<and> send_telegram_message_telethon (example_world example_document ApiRaised ApiRaised True)
       TargetChannel ''Hello'' []
     = [SendMessage TargetChannel ''Hello'' True]"
proof -
  have len: "length ''Hello'' \<le> MAX_MESSAGE_LENGTH" by (simp add: MAX_MESSAGE_LENGTH_def)
  show ?thesis
    using single_part_delivery [OF len, of "example_world example_document ApiRaised ApiRaised True" TargetChannel "[]"] len
    by (simp add: example_world_def)
qed

text \<open>
  Claim C9: for an absent or empty text \<open>translate_text\<close> returns \<open>None\<close> and leaves
  the trace as it was (no provider call, no log record), for either role and any
  configuration.
\<close>

theorem translate_empty_input:
  assumes "\<not> truthy dhivehi_text"
  shows "translate_text cfg w dhivehi_text is_title tr = (None, tr)"
  using assms by (simp add: translate_text_def truthy_def split: option.splits)

text \<open>Claim C9, witness: the empty string and \<open>None\<close>.\<close>

theorem translate_empty_input_witness:
  "\<not> truthy (Some []) \<and> \<not> truthy None
   \<and> translate_text example_config (example_world example_document ApiRaised ApiRaised True)
       (Some []) True [] = (None, [])
   \<and> translate_text example_config (example_world example_document ApiRaised ApiRaised True)
       None False [] = (None, [])"
proof -
  have 1: "\<not> truthy (Some [])" and 2: "\<not> truthy None" by (simp_all add: truthy_def)
  show ?thesis using translate_empty_input [OF 1] translate_empty_input [OF 2] 1 2 by simp
qed

text \<open>Claim C10, witness.\<close>

theorem split_loop_progress_witness:
  "(0 + MAX_MESSAGE_LENGTH < length (replicate 4001 (CHR ''a''))
    \<and> fst (split_step (replicate 4001 (CHR ''a'')) 0) \<noteq> [])
   \<and> [CHR ''a''] \<in> set (split_message (replicate 4001 (CHR ''a'')))
   \<and> [CHR ''a''] \<noteq> []"
proof -
  have a: "CHR ''a'' \<noteq> newline" by (simp add: newline_def)
  have len: "0 + MAX_MESSAGE_LENGTH < length (replicate 4001 (CHR ''a''))"
    by (simp add: MAX_MESSAGE_LENGTH_def)
  have mem: "[CHR ''a''] \<in> set (split_message (replicate 4001 (CHR ''a'')))"
    by (simp add: split_message_replicate [OF a])
  from split_loop_progress [of 0 "replicate 4001 (CHR ''a'')"] len mem show ?thesis by blast
qed


section \<open>Extraction and the handlers\<close>

lemma truthy_simps [simp]:
  "truthy None = False" "truthy (Some s) = (s \<noteq> [])"
  by (simp_all add: truthy_def)




lemma set_strip: "set (strip s) \<subseteq> set s"
  by (auto simp: strip_def dest!: set_dropWhileD)








lemma extract_example_document:
  "extract_article example_document = (Some ''Title'', Some example_body)"
  by code_simp

lemma extract_short_document:
  "extract_article short_document = (Some ''Title'', Some ''Too short'')"
  by code_simp

lemma first_url_example_post:
  "first_url ''New article https://mihaaru.com/news/1'' = Some ''https://mihaaru.com/news/1''"
  by code_simp

lemma first_url_example_command:
  "first_url (strip ''https://mihaaru.com/news/1'') = Some ''https://mihaaru.com/news/1''"
  by code_simp















text \<open>
  Claim C4: for a parsed document, extraction returns \<open>(None, None)\<close> exactly when
  both the title and the final body text are absent or empty; when one of them is not
  empty it returns the pair as found; and this is what \<open>fetch_article_text\<close> returns
  for a response with status 200.
\<close>

theorem extraction_failure_iff:
  "((extract_article doc = (None, None))
      = (\<not> truthy (dhivehi_title doc) \<and> \<not> truthy (final_body_text doc)))
   \<and> (truthy (dhivehi_title doc) \<or> truthy (final_body_text doc)
        \<longrightarrow> extract_article doc = (dhivehi_title doc, final_body_text doc))
   \<and> (http_get w tr url = HttpResponse 200 (Some doc)
        \<longrightarrow> fst (fetch_article_text w url tr) = extract_article doc)"
  by (auto simp: extract_article_def fetch_article_text_def truthy_def split: option.splits)

text \<open>
  Claim C4, witness: the empty document fails, a document with only a body is returned
  with no title.
\<close>

theorem extraction_failure_iff_witness:
  "extract_article [] = (None, None)
   \<and> extract_article [Tag ''article'' [] [NavigableString ''Only a body'']]
       = (None, Some ''Only a body'')
   \<and> fst (fetch_article_text (example_world example_document ApiRaised ApiRaised True)
            ''https://mihaaru.com/news/1'' [])
       = (Some ''Title'', Some example_body)"
proof -
  let ?d = "[Tag ''article'' [] [NavigableString ''Only a body'']]"
  have t0: "dhivehi_title [] = None" and b0: "final_body_text [] = None"
    by code_simp+
  have t1: "dhivehi_title ?d = None" and b1: "final_body_text ?d = Some ''Only a body''"
    by code_simp+
  have h: "http_get (example_world example_document ApiRaised ApiRaised True) []
             ''https://mihaaru.com/news/1'' = HttpResponse 200 (Some example_document)"
    by (simp add: example_world_def)
  have 1: "extract_article [] = (None, None)"
    using extraction_failure_iff [of "[]"] t0 b0 by simp
  have 2: "extract_article ?d = (None, Some ''Only a body'')"
    using extraction_failure_iff [of ?d] t1 b1 by simp
  have 3: "fst (fetch_article_text (example_world example_document ApiRaised ApiRaised True)
            ''https://mihaaru.com/news/1'' []) = extract_article example_document"
    using extraction_failure_iff [of example_document "example_world example_document ApiRaised ApiRaised True" "[]"
                 "''https://mihaaru.com/news/1''"] h by blast
  show ?thesis using 1 2 3 by (simp add: extract_example_document)
qed

lemma sent_texts_Nil [simp]: "sent_texts [] = []"
  by (simp add: sent_texts_def)

lemma sent_texts_Cons [simp]:
  "sent_texts (e # tr) = (case e of SendMessage entity msg sent \<Rightarrow> [msg] | _ \<Rightarrow> []) @ sent_texts tr"
  by (simp add: sent_texts_def)

lemma send_sent_texts:
  "sent_texts (send_telegram_message_telethon w entity msg tr)
     = sent_texts tr @ (if length msg \<le> MAX_MESSAGE_LENGTH then [msg] else split_message msg)"
  by (simp add: send_telegram_message_telethon_def send_parts_texts sent_texts_append)

lemma fetch_sent_texts:
  "sent_texts (snd (fetch_article_text w url tr)) = sent_texts tr"
  by (simp add: fetch_article_text_def sent_texts_append split: http_result.splits option.splits)

lemma fetch_provider_calls:
  "filter is_provider_call (snd (fetch_article_text w url tr)) = filter is_provider_call tr"
  by (simp add: fetch_article_text_def is_provider_call_def split: http_result.splits option.splits)

lemma translate_text_sent_texts:
  "sent_texts (snd (translate_text cfg w t is_title tr)) = sent_texts tr"
  by (simp add: translate_text_def sent_texts_append split: option.splits)

lemma translate_title_sent_texts:
  "sent_texts (snd (translate_title cfg w line title tr)) = sent_texts tr"
  by (simp add: translate_title_def translate_text_sent_texts sent_texts_append)

lemma reply_and_return_trace:
  "snd (reply_and_return w msg tr) = tr @ [Reply msg (reply w tr msg)]"
  by (simp add: reply_and_return_def event_reply_def split: bool.splits)

lemma post_too_short:
  assumes "first_url (case message_text event of None \<Rightarrow> [] | Some t \<Rightarrow> t) = Some url"
    and "fetch_article_text w url
           (tr @ [Log INFO ''New message received from Mihaaru channel (ID: {event.chat_id})'',
                  Log INFO ''Detected article URL: {url} from Mihaaru channel post.''])
         = ((title, body), tr1)"
    and "too_short 50 body"
  shows "handle_new_post cfg w event tr
         = tr1 @ [Log WARNING ''Article body text extraction failed or text too short for URL: {url}'']"
  using assms by (simp add: handle_new_post_def)

lemma post_translated:
  assumes "first_url (case message_text event of None \<Rightarrow> [] | Some t \<Rightarrow> t) = Some url"
    and "fetch_article_text w url
           (tr @ [Log INFO ''New message received from Mihaaru channel (ID: {event.chat_id})'',
                  Log INFO ''Detected article URL: {url} from Mihaaru channel post.''])
         = ((title, body), tr1)"
    and "\<not> too_short 50 body"
    and "translate_title cfg w ''Translating title for {url}...'' title tr1 = (tt, tr2)"
    and "translate_text cfg w body False
           (tr2 @ [Log INFO ''Translating article body from {url}...'']) = (tb, tr3)"
  shows "handle_new_post cfg w event tr
         = (case tb of
              None \<Rightarrow> tr3 @ [Log WARNING ''Translation of body failed for article from {url}.'']
            | Some b \<Rightarrow>
                if b = []
                then tr3 @ [Log WARNING ''Translation of body failed for article from {url}.'']
                else send_telegram_message_telethon w TargetChannel (message_to_send tt b url)
                       (tr3 @ [Log INFO ''Sending translation for {url} to target: {TARGET_CHANNEL_ENV}''])
                     @ [Log INFO ''Translation for {url} sent successfully.''])"
  using assms by (simp add: handle_new_post_def)

lemma manual_too_short:
  assumes "first_url (strip (pattern_match_group_1 command)) = Some url"
    and "reply w (tr @ [Log INFO ''Manual /translate command received for URL: {url} in chat {event.chat_id}''])
               (''Processing manual translation for: '' @ url @ ''...'')"
    and "fetch_article_text w url
           (tr @ [Log INFO ''Manual /translate command received for URL: {url} in chat {event.chat_id}'',
                  Reply (''Processing manual translation for: '' @ url @ ''...'') True])
         = ((title, body), tr1)"
    and "too_short 30 body"
  shows "manual_translate_handler cfg w command tr
         = reply_and_return w
             (''Could not extract enough article body text from '' @ url
                @ ''. Please check the URL or try another.'')
             (tr1 @ [Log WARNING ''Manual Translate: Article body text extraction failed or text too short for URL: {url}''])"
  using assms by (simp add: manual_translate_handler_def event_reply_def)

lemma manual_translated:
  assumes "first_url (strip (pattern_match_group_1 command)) = Some url"
    and "reply w (tr @ [Log INFO ''Manual /translate command received for URL: {url} in chat {event.chat_id}''])
               (''Processing manual translation for: '' @ url @ ''...'')"
    and "fetch_article_text w url
           (tr @ [Log INFO ''Manual /translate command received for URL: {url} in chat {event.chat_id}'',
                  Reply (''Processing manual translation for: '' @ url @ ''...'') True])
         = ((title, body), tr1)"
    and "\<not> too_short 30 body"
    and "translate_title cfg w ''Manual Translate: Translating title for {url}...'' title tr1 = (tt, tr2)"
    and "translate_text cfg w body False
           (tr2 @ [Log INFO ''Manual Translate: Translating article body from {url}...'']) = (tb, tr3)"
  shows "manual_translate_handler cfg w command tr
         = (if \<not> truthy tb
            then reply_and_return w
                   (''Translation of body failed for '' @ url
                      @ ''. The translation service might be unavailable or the content is not translatable.'')
                   (tr3 @ [Log WARNING ''Manual Translate: Translation of body failed for article from {url}.''])
            else (Returned,
                  send_telegram_message_telethon w (Chat (command_chat_id command))
                    (message_to_send tt (case tb of None \<Rightarrow> [] | Some b \<Rightarrow> b) url)
                    (tr3 @ [Log INFO ''Manual Translate: Sending translation for {url} to chat {event.chat_id}''])
                  @ [Log INFO ''Manual Translate: Translation for {url} sent successfully to chat {event.chat_id}.'']))"
  using assms by (simp add: manual_translate_handler_def event_reply_def)

lemma message_without_title:
  "\<not> truthy tt \<Longrightarrow> message_to_send tt b url
     = b @ [newline, newline] @ ''<a href='' @ [CHR 0x22] @ formatted_url url @ [CHR 0x22]
         @ ''>Original Article</a>''"
  by (auto simp: message_to_send_def truthy_def split: option.splits)



lemma example_fetch:
  "fetch_article_text (example_world example_document ta ba s) url tr
     = ((Some ''Title'', Some example_body), tr @ [HttpGet url])"
proof -
  have "title_tag example_document \<noteq> None" "dhivehi_title example_document = Some ''Title''"
    by code_simp+
  then show ?thesis
    by (simp add: fetch_article_text_def example_world_def extract_example_document)
qed

lemma short_fetch:
  "fetch_article_text (example_world short_document ta ba s) url tr
     = ((Some ''Title'', Some ''Too short''), tr @ [HttpGet url])"
proof -
  have "title_tag short_document \<noteq> None" "dhivehi_title short_document = Some ''Title''"
    by code_simp+
  then show ?thesis
    by (simp add: fetch_article_text_def example_world_def extract_short_document)
qed

lemma example_translate:
  "t \<noteq> [] \<Longrightarrow>
   translate_text example_config (example_world doc ta ba s) (Some t) is_title tr
     = (first_choice (if is_title then ta else ba),
        tr @ ProviderCall OpenAI (translation_request ''gpt-3.5-turbo'' t is_title)
             # (if first_choice (if is_title then ta else ba) = None
                then [Log ERROR ''OpenAI API error: {e}''] else []))"
  by (simp add: translate_text_def example_config_def example_world_def openai_client_def
        translation_request_def split: option.splits)

text \<open>
  Claim C5: when the body that extraction returned is absent or shorter than 50
  characters, \<open>handle_new_post\<close> adds one warning to the trace and nothing else: no
  provider call, no message, no reply. When it is absent or shorter than 30 characters,
  \<open>manual_translate_handler\<close> adds a warning and the reply that explains it, and makes
  no provider call either.
\<close>

theorem short_body_aborts:
  "(first_url (case message_text event of None \<Rightarrow> [] | Some t \<Rightarrow> t) = Some url
    \<and> fetch_article_text w url
         (tr @ [Log INFO ''New message received from Mihaaru channel (ID: {event.chat_id})'',
                Log INFO ''Detected article URL: {url} from Mihaaru channel post.''])
       = ((title, body), tr1)
    \<and> too_short 50 body
    \<longrightarrow> handle_new_post cfg w event tr
          = tr1 @ [Log WARNING ''Article body text extraction failed or text too short for URL: {url}'']
        \<and> filter is_provider_call (handle_new_post cfg w event tr) = filter is_provider_call tr
        \<and> sent_texts (handle_new_post cfg w event tr) = sent_texts tr)
   \<and> (first_url (strip (pattern_match_group_1 command)) = Some url
    \<and> reply w (tr @ [Log INFO ''Manual /translate command received for URL: {url} in chat {event.chat_id}''])
             (''Processing manual translation for: '' @ url @ ''...'')
    \<and> fetch_article_text w url
         (tr @ [Log INFO ''Manual /translate command received for URL: {url} in chat {event.chat_id}'',
                Reply (''Processing manual translation for: '' @ url @ ''...'') True])
       = ((title, body), tr1)
    \<and> too_short 30 body
    \<longrightarrow> snd (manual_translate_handler cfg w command tr)
          = tr1 @ [Log WARNING ''Manual Translate: Article body text extraction failed or text too short for URL: {url}'',
                   Reply (''Could not extract enough article body text from '' @ url
                            @ ''. Please check the URL or try another.'')
                     (reply w
                        (tr1 @ [Log WARNING ''Manual Translate: Article body text extraction failed or text too short for URL: {url}''])
                        (''Could not extract enough article body text from '' @ url
                            @ ''. Please check the URL or try another.''))]
        \<and> filter is_provider_call (snd (manual_translate_handler cfg w command tr))
            = filter is_provider_call tr
        \<and> sent_texts (snd (manual_translate_handler cfg w command tr)) = sent_texts tr)"
proof (intro conjI impI)
  assume a: "first_url (case message_text event of None \<Rightarrow> [] | Some t \<Rightarrow> t) = Some url
    \<and> fetch_article_text w url
         (tr @ [Log INFO ''New message received from Mihaaru channel (ID: {event.chat_id})'',
                Log INFO ''Detected article URL: {url} from Mihaaru channel post.''])
       = ((title, body), tr1)
    \<and> too_short 50 body"
  then have eq: "handle_new_post cfg w event tr
          = tr1 @ [Log WARNING ''Article body text extraction failed or text too short for URL: {url}'']"
    by (intro post_too_short) auto
  from a have tr1: "tr1 = snd (fetch_article_text w url
         (tr @ [Log INFO ''New message received from Mihaaru channel (ID: {event.chat_id})'',
                Log INFO ''Detected article URL: {url} from Mihaaru channel post.'']))"
    by simp
  show "handle_new_post cfg w event tr
          = tr1 @ [Log WARNING ''Article body text extraction failed or text too short for URL: {url}'']"
    by (rule eq)
  show "filter is_provider_call (handle_new_post cfg w event tr) = filter is_provider_call tr"
    unfolding eq by (simp add: tr1 fetch_provider_calls) (simp add: is_provider_call_def)
  show "sent_texts (handle_new_post cfg w event tr) = sent_texts tr"
    unfolding eq by (simp add: tr1 fetch_sent_texts sent_texts_append)
next
  assume a: "first_url (strip (pattern_match_group_1 command)) = Some url
    \<and> reply w (tr @ [Log INFO ''Manual /translate command received for URL: {url} in chat {event.chat_id}''])
             (''Processing manual translation for: '' @ url @ ''...'')
    \<and> fetch_article_text w url
         (tr @ [Log INFO ''Manual /translate command received for URL: {url} in chat {event.chat_id}'',
                Reply (''Processing manual translation for: '' @ url @ ''...'') True])
       = ((title, body), tr1)
    \<and> too_short 30 body"
  then have eq: "manual_translate_handler cfg w command tr
         = reply_and_return w
             (''Could not extract enough article body text from '' @ url
                @ ''. Please check the URL or try another.'')
             (tr1 @ [Log WARNING ''Manual Translate: Article body text extraction failed or text too short for URL: {url}''])"
    by (intro manual_too_short) auto
  from a have tr1: "tr1 = snd (fetch_article_text w url
         (tr @ [Log INFO ''Manual /translate command received for URL: {url} in chat {event.chat_id}'',
                Reply (''Processing manual translation for: '' @ url @ ''...'') True]))"
    by simp
  show "snd (manual_translate_handler cfg w command tr)
          = tr1 @ [Log WARNING ''Manual Translate: Article body text extraction failed or text too short for URL: {url}'',
                   Reply (''Could not extract enough article body text from '' @ url
                            @ ''. Please check the URL or try another.'')
                     (reply w
                        (tr1 @ [Log WARNING ''Manual Translate: Article body text extraction failed or text too short for URL: {url}''])
                        (''Could not extract enough article body text from '' @ url
                            @ ''. Please check the URL or try another.''))]"
    unfolding eq by (simp add: reply_and_return_trace)
  show "filter is_provider_call (snd (manual_translate_handler cfg w command tr))
            = filter is_provider_call tr"
    unfolding eq reply_and_return_trace
    by (simp add: tr1 fetch_provider_calls) (simp add: is_provider_call_def)
  show "sent_texts (snd (manual_translate_handler cfg w command tr)) = sent_texts tr"
    unfolding eq reply_and_return_trace
    by (simp add: tr1 fetch_sent_texts sent_texts_append)
qed

text \<open>Claim C5, witness: a body of nine characters, for both handlers.\<close>

theorem short_body_aborts_witness:
  "handle_new_post example_config (example_world short_document ApiRaised ApiRaised True)
     example_post []
   = [Log INFO ''New message received from Mihaaru channel (ID: {event.chat_id})'',
      Log INFO ''Detected article URL: {url} from Mihaaru channel post.'',
      HttpGet ''https://mihaaru.com/news/1'',
      Log WARNING ''Article body text extraction failed or text too short for URL: {url}'']
   \<and> snd (manual_translate_handler example_config
            (example_world short_document ApiRaised ApiRaised True) example_command [])
   = [Log INFO ''Manual /translate command received for URL: {url} in chat {event.chat_id}'',
      Reply ''Processing manual translation for: https://mihaaru.com/news/1...'' True,
      HttpGet ''https://mihaaru.com/news/1'',
      Log WARNING ''Manual Translate: Article body text extraction failed or text too short for URL: {url}'',
      Reply ''Could not extract enough article body text from https://mihaaru.com/news/1. Please check the URL or try another.'' True]"
proof -
  let ?w = "example_world short_document ApiRaised ApiRaised True"
  have u1: "first_url (case message_text example_post of None \<Rightarrow> [] | Some t \<Rightarrow> t)
              = Some ''https://mihaaru.com/news/1''"
    by (simp add: example_post_def first_url_example_post del: first_url.simps)
  have u2: "first_url (strip (pattern_match_group_1 example_command))
              = Some ''https://mihaaru.com/news/1''"
    by (simp add: example_command_def first_url_example_command del: first_url.simps)
  have r: "reply ?w tr msg" for tr msg by (simp add: example_world_def)
  have s50: "too_short 50 (Some ''Too short'')" and s30: "too_short 30 (Some ''Too short'')"
    by (simp_all add: too_short_def)
  note inst = short_body_aborts [of _ "''https://mihaaru.com/news/1''" ?w "[]" "Some ''Title''" "Some ''Too short''"
                    _ example_config]
  have 1: "handle_new_post example_config ?w example_post []
          = ([] @ [Log INFO ''New message received from Mihaaru channel (ID: {event.chat_id})'',
                Log INFO ''Detected article URL: {url} from Mihaaru channel post.''])
            @ [HttpGet ''https://mihaaru.com/news/1'']
            @ [Log WARNING ''Article body text extraction failed or text too short for URL: {url}'']"
    using inst [THEN conjunct1, rule_format, THEN conjunct1, of example_post] u1 s50
    by (simp add: short_fetch)
  have 2: "snd (manual_translate_handler example_config ?w example_command [])
          = ([] @ [Log INFO ''Manual /translate command received for URL: {url} in chat {event.chat_id}'',
                Reply (''Processing manual translation for: '' @ ''https://mihaaru.com/news/1'' @ ''...'') True])
            @ [HttpGet ''https://mihaaru.com/news/1'']
            @ [Log WARNING ''Manual Translate: Article body text extraction failed or text too short for URL: {url}'',
               Reply (''Could not extract enough article body text from '' @ ''https://mihaaru.com/news/1''
                            @ ''. Please check the URL or try another.'') True]"
    using inst [THEN conjunct2, rule_format, THEN conjunct1, of example_command] u2 s30 r
    by (simp add: short_fetch)
  show ?thesis using 1 2 by simp
qed

text \<open>
  Claim C7: when a title was extracted and the translation of the body returns nothing
  (\<open>None\<close> or the empty string), \<open>handle_new_post\<close> ends with the warning about
  the body; nothing is sent, whatever the translation of the title returned.
\<close>

theorem body_translation_failure_aborts:
  assumes "first_url (case message_text event of None \<Rightarrow> [] | Some t \<Rightarrow> t) = Some url"
    and "fetch_article_text w url
           (tr @ [Log INFO ''New message received from Mihaaru channel (ID: {event.chat_id})'',
                  Log INFO ''Detected article URL: {url} from Mihaaru channel post.''])
         = ((title, body), tr1)"
    and "truthy title" and "\<not> too_short 50 body"
    and "translate_text cfg w title True (tr1 @ [Log INFO ''Translating title for {url}...''])
         = (translated_title_english, tr2)"
    and "translate_text cfg w body False
           (tr2 @ [Log INFO ''Translating article body from {url}...'']) = (translation_english_body, tr3)"
    and "\<not> truthy translation_english_body"
  shows "handle_new_post cfg w event tr
           = tr3 @ [Log WARNING ''Translation of body failed for article from {url}.'']
         \<and> sent_texts (handle_new_post cfg w event tr) = sent_texts tr"
proof -
  have tt: "translate_title cfg w ''Translating title for {url}...'' title tr1
            = (translated_title_english, tr2)"
    using assms(3,5) by (simp add: translate_title_def)
  have eq: "handle_new_post cfg w event tr
           = tr3 @ [Log WARNING ''Translation of body failed for article from {url}.'']"
    using post_translated [OF assms(1,2,4) tt assms(6)] assms(7)
    by (simp add: truthy_def split: option.splits)
  have "sent_texts tr3 = sent_texts tr2"
    using translate_text_sent_texts [of cfg w body False
            "tr2 @ [Log INFO ''Translating article body from {url}...'']"] assms(6)
    by (simp add: sent_texts_append)
  also have "\<dots> = sent_texts tr1"
    using translate_text_sent_texts [of cfg w title True
            "tr1 @ [Log INFO ''Translating title for {url}...'']"] assms(5)
    by (simp add: sent_texts_append)
  also have "\<dots> = sent_texts tr"
    using fetch_sent_texts [of w url
            "tr @ [Log INFO ''New message received from Mihaaru channel (ID: {event.chat_id})'',
                  Log INFO ''Detected article URL: {url} from Mihaaru channel post.'']"] assms(2)
    by (simp add: sent_texts_append)
  finally show ?thesis using eq by (simp add: sent_texts_append)
qed

text \<open>
  Claim C7, witness: the title is translated, the request for the body raises.
\<close>

theorem body_translation_failure_aborts_witness:
  "handle_new_post example_config
     (example_world example_document (ApiResponse [Some ''Title in English'']) ApiRaised True)
     example_post []
   = [Log INFO ''New message received from Mihaaru channel (ID: {event.chat_id})'',
      Log INFO ''Detected article URL: {url} from Mihaaru channel post.'',
      HttpGet ''https://mihaaru.com/news/1'',
      Log INFO ''Translating title for {url}...'',
      ProviderCall OpenAI (translation_request ''gpt-3.5-turbo'' ''Title'' True),
      Log INFO ''Translating article body from {url}...'',
      ProviderCall OpenAI (translation_request ''gpt-3.5-turbo'' example_body False),
      Log ERROR ''OpenAI API error: {e}'',
      Log WARNING ''Translation of body failed for article from {url}.'']"
proof -
  let ?w = "example_world example_document (ApiResponse [Some ''Title in English'']) ApiRaised True"
  let ?tr1 = "[Log INFO ''New message received from Mihaaru channel (ID: {event.chat_id})'',
               Log INFO ''Detected article URL: {url} from Mihaaru channel post.'',
               HttpGet ''https://mihaaru.com/news/1'']"
  let ?tr2 = "?tr1 @ [Log INFO ''Translating title for {url}...'',
                      ProviderCall OpenAI (translation_request ''gpt-3.5-turbo'' ''Title'' True)]"
  let ?tr3 = "?tr2 @ [Log INFO ''Translating article body from {url}...'',
                      ProviderCall OpenAI (translation_request ''gpt-3.5-turbo'' example_body False),
                      Log ERROR ''OpenAI API error: {e}'']"
  have u1: "first_url (case message_text example_post of None \<Rightarrow> [] | Some t \<Rightarrow> t)
              = Some ''https://mihaaru.com/news/1''"
    by (simp add: example_post_def first_url_example_post del: first_url.simps)
  have ne: "example_body \<noteq> []" and long: "\<not> too_short 50 (Some example_body)"
    by (simp_all add: example_body_def too_short_def)
  have t: "truthy (Some ''Title'')" by simp
  have f: "\<not> truthy None" by simp
  have fetch: "fetch_article_text ?w ''https://mihaaru.com/news/1''
           ([] @ [Log INFO ''New message received from Mihaaru channel (ID: {event.chat_id})'',
                  Log INFO ''Detected article URL: {url} from Mihaaru channel post.''])
         = ((Some ''Title'', Some example_body), ?tr1)"
    by (simp add: example_fetch)
  have tt: "translate_text example_config ?w (Some ''Title'') True
              (?tr1 @ [Log INFO ''Translating title for {url}...'']) = (Some ''Title in English'', ?tr2)"
    by (simp add: example_translate first_choice_def strip_def isspace_def)
  have tb: "translate_text example_config ?w (Some example_body) False
              (?tr2 @ [Log INFO ''Translating article body from {url}...'']) = (None, ?tr3)"
    using ne by (simp add: example_translate first_choice_def)
  show ?thesis
    using body_translation_failure_aborts [OF u1 fetch t long tt tb f] by simp
qed


section \<open>Failed translations\<close>

lemma example_formatted_url:
  "formatted_url ''https://mihaaru.com/news/1'' = ''https://mihaaru.com/news/1''"
  by (simp add: formatted_url_def replace_def)

text \<open>
  Claim C1, as stated, fails for the translation of the title: when that call raises and
  the body is translated, \<open>handle_new_post\<close> goes on and sends the message, without a
  title line.
\<close>

theorem title_translation_failure_still_delivers:
  "handle_new_post example_config
     (example_world example_document ApiRaised (ApiResponse [Some ''Body in English'']) True)
     example_post []
   = [Log INFO ''New message received from Mihaaru channel (ID: {event.chat_id})'',
      Log INFO ''Detected article URL: {url} from Mihaaru channel post.'',
      HttpGet ''https://mihaaru.com/news/1'',
      Log INFO ''Translating title for {url}...'',
      ProviderCall OpenAI (translation_request ''gpt-3.5-turbo'' ''Title'' True),
      Log ERROR ''OpenAI API error: {e}'',
      Log INFO ''Translating article body from {url}...'',
      ProviderCall OpenAI (translation_request ''gpt-3.5-turbo'' example_body False),
      Log INFO ''Sending translation for {url} to target: {TARGET_CHANNEL_ENV}'',
      SendMessage TargetChannel
        (''Body in English'' @ [newline, newline] @ ''<a href='' @ [CHR 0x22]
           @ ''https://mihaaru.com/news/1'' @ [CHR 0x22] @ ''>Original Article</a>'') True,
      Log INFO ''Translation for {url} sent successfully.'']"
proof -
  let ?w = "example_world example_document ApiRaised (ApiResponse [Some ''Body in English'']) True"
  let ?tr1 = "[Log INFO ''New message received from Mihaaru channel (ID: {event.chat_id})'',
               Log INFO ''Detected article URL: {url} from Mihaaru channel post.'',
               HttpGet ''https://mihaaru.com/news/1'']"
  let ?tr2 = "?tr1 @ [Log INFO ''Translating title for {url}...'',
                      ProviderCall OpenAI (translation_request ''gpt-3.5-turbo'' ''Title'' True),
                      Log ERROR ''OpenAI API error: {e}'']"
  let ?tr3 = "?tr2 @ [Log INFO ''Translating article body from {url}...'',
                      ProviderCall OpenAI (translation_request ''gpt-3.5-turbo'' example_body False)]"
  have u1: "first_url (case message_text example_post of None \<Rightarrow> [] | Some t \<Rightarrow> t)
              = Some ''https://mihaaru.com/news/1''"
    by (simp add: example_post_def first_url_example_post del: first_url.simps)
  have ne: "example_body \<noteq> []" and long: "\<not> too_short 50 (Some example_body)"
    by (simp_all add: example_body_def too_short_def)
  have fetch: "fetch_article_text ?w ''https://mihaaru.com/news/1''
           ([] @ [Log INFO ''New message received from Mihaaru channel (ID: {event.chat_id})'',
                  Log INFO ''Detected article URL: {url} from Mihaaru channel post.''])
         = ((Some ''Title'', Some example_body), ?tr1)"
    by (simp add: example_fetch)
  have tt: "translate_title example_config ?w ''Translating title for {url}...'' (Some ''Title'') ?tr1
              = (None, ?tr2)"
    by (simp add: translate_title_def example_translate first_choice_def)
  have tb: "translate_text example_config ?w (Some example_body) False
              (?tr2 @ [Log INFO ''Translating article body from {url}...''])
            = (Some ''Body in English'', ?tr3)"
    using ne by (simp add: example_translate first_choice_def strip_def isspace_def)
  show ?thesis
    using post_translated [OF u1 fetch long tt tb]
    by (simp add: message_to_send_def example_formatted_url send_telegram_message_telethon_def
          MAX_MESSAGE_LENGTH_def example_world_def)
qed

lemma handler_stages_sent_texts:
  assumes "fetch_article_text w url tr0 = ((title, body), tr1)"
    and "translate_title cfg w line title tr1 = (tt, tr2)"
    and "translate_text cfg w body False (tr2 @ [Log INFO line2]) = (tb, tr3)"
  shows "sent_texts tr3 = sent_texts tr0"
proof -
  have "sent_texts tr3 = sent_texts tr2"
    using translate_text_sent_texts [of cfg w body False "tr2 @ [Log INFO line2]"] assms(3)
    by (simp add: sent_texts_append)
  also have "\<dots> = sent_texts tr1"
    using translate_title_sent_texts [of cfg w line title tr1] assms(2) by simp
  also have "\<dots> = sent_texts tr0"
    using fetch_sent_texts [of w url tr0] assms(1) by simp
  finally show ?thesis .
qed

text \<open>
  Claim C1, amended: in both handlers, when the translation of the body returns nothing,
  the event ends there: a warning is logged (and the manual handler replies), nothing is
  sent, and a translated title is dropped. When the translation of the title returns
  nothing and the body is translated, the message is sent without the title line.
\<close>

theorem translation_failure_policy:
  "(first_url (case message_text event of None \<Rightarrow> [] | Some t \<Rightarrow> t) = Some url
    \<and> fetch_article_text w url
         (tr @ [Log INFO ''New message received from Mihaaru channel (ID: {event.chat_id})'',
                Log INFO ''Detected article URL: {url} from Mihaaru channel post.''])
       = ((title, body), tr1)
    \<and> \<not> too_short 50 body
    \<and> translate_title cfg w ''Translating title for {url}...'' title tr1 = (tt, tr2)
    \<and> translate_text cfg w body False
         (tr2 @ [Log INFO ''Translating article body from {url}...'']) = (tb, tr3)
    \<longrightarrow> (\<not> truthy tb
           \<longrightarrow> handle_new_post cfg w event tr
                = tr3 @ [Log WARNING ''Translation of body failed for article from {url}.'']
              \<and> sent_texts (handle_new_post cfg w event tr) = sent_texts tr)
        \<and> (\<forall>b. tb = Some b \<and> b \<noteq> [] \<and> \<not> truthy tt
           \<longrightarrow> handle_new_post cfg w event tr
                = send_telegram_message_telethon w TargetChannel
                    (b @ [newline, newline] @ ''<a href='' @ [CHR 0x22] @ formatted_url url
                       @ [CHR 0x22] @ ''>Original Article</a>'')
                    (tr3 @ [Log INFO ''Sending translation for {url} to target: {TARGET_CHANNEL_ENV}''])
                  @ [Log INFO ''Translation for {url} sent successfully.'']))
   \<and> (first_url (strip (pattern_match_group_1 command)) = Some url
    \<and> reply w (tr @ [Log INFO ''Manual /translate command received for URL: {url} in chat {event.chat_id}''])
             (''Processing manual translation for: '' @ url @ ''...'')
    \<and> fetch_article_text w url
         (tr @ [Log INFO ''Manual /translate command received for URL: {url} in chat {event.chat_id}'',
                Reply (''Processing manual translation for: '' @ url @ ''...'') True])
       = ((title, body), tr1)
    \<and> \<not> too_short 30 body
    \<and> translate_title cfg w ''Manual Translate: Translating title for {url}...'' title tr1 = (tt, tr2)
    \<and> translate_text cfg w body False
         (tr2 @ [Log INFO ''Manual Translate: Translating article body from {url}...'']) = (tb, tr3)
    \<longrightarrow> (\<not> truthy tb
           \<longrightarrow> manual_translate_handler cfg w command tr
                = reply_and_return w
                    (''Translation of body failed for '' @ url
                       @ ''. The translation service might be unavailable or the content is not translatable.'')
                    (tr3 @ [Log WARNING ''Manual Translate: Translation of body failed for article from {url}.''])
              \<and> sent_texts (snd (manual_translate_handler cfg w command tr)) = sent_texts tr)
        \<and> (\<forall>b. tb = Some b \<and> b \<noteq> [] \<and> \<not> truthy tt
           \<longrightarrow> manual_translate_handler cfg w command tr
                = (Returned,
                   send_telegram_message_telethon w (Chat (command_chat_id command))
                     (b @ [newline, newline] @ ''<a href='' @ [CHR 0x22] @ formatted_url url
                        @ [CHR 0x22] @ ''>Original Article</a>'')
                     (tr3 @ [Log INFO ''Manual Translate: Sending translation for {url} to chat {event.chat_id}''])
                   @ [Log INFO ''Manual Translate: Translation for {url} sent successfully to chat {event.chat_id}.''])))"
proof (intro conjI impI allI)
  assume a: "first_url (case message_text event of None \<Rightarrow> [] | Some t \<Rightarrow> t) = Some url
    \<and> fetch_article_text w url
         (tr @ [Log INFO ''New message received from Mihaaru channel (ID: {event.chat_id})'',
                Log INFO ''Detected article URL: {url} from Mihaaru channel post.''])
       = ((title, body), tr1)
    \<and> \<not> too_short 50 body
    \<and> translate_title cfg w ''Translating title for {url}...'' title tr1 = (tt, tr2)
    \<and> translate_text cfg w body False
         (tr2 @ [Log INFO ''Translating article body from {url}...'']) = (tb, tr3)"
  note eq = post_translated [OF a [THEN conjunct1] a [THEN conjunct2, THEN conjunct1]
      a [THEN conjunct2, THEN conjunct2, THEN conjunct1]
      a [THEN conjunct2, THEN conjunct2, THEN conjunct2, THEN conjunct1]
      a [THEN conjunct2, THEN conjunct2, THEN conjunct2, THEN conjunct2]]
  have st: "sent_texts tr3 = sent_texts tr"
    using handler_stages_sent_texts [OF a [THEN conjunct2, THEN conjunct1]
      a [THEN conjunct2, THEN conjunct2, THEN conjunct2, THEN conjunct1]
      a [THEN conjunct2, THEN conjunct2, THEN conjunct2, THEN conjunct2]]
    by (simp add: sent_texts_append)
  {
    assume f: "\<not> truthy tb"
    then show "handle_new_post cfg w event tr
                = tr3 @ [Log WARNING ''Translation of body failed for article from {url}.'']"
      unfolding eq by (simp add: truthy_def split: option.splits)
    then show "sent_texts (handle_new_post cfg w event tr) = sent_texts tr"
      by (simp add: sent_texts_append st)
  }
  {
    fix b
    assume "tb = Some b \<and> b \<noteq> [] \<and> \<not> truthy tt"
    then show "handle_new_post cfg w event tr
                = send_telegram_message_telethon w TargetChannel
                    (b @ [newline, newline] @ ''<a href='' @ [CHR 0x22] @ formatted_url url
                       @ [CHR 0x22] @ ''>Original Article</a>'')
                    (tr3 @ [Log INFO ''Sending translation for {url} to target: {TARGET_CHANNEL_ENV}''])
                  @ [Log INFO ''Translation for {url} sent successfully.'']"
      unfolding eq by (simp add: message_without_title)
  }
next
  assume a: "first_url (strip (pattern_match_group_1 command)) = Some url
    \<and> reply w (tr @ [Log INFO ''Manual /translate command received for URL: {url} in chat {event.chat_id}''])
             (''Processing manual translation for: '' @ url @ ''...'')
    \<and> fetch_article_text w url
         (tr @ [Log INFO ''Manual /translate command received for URL: {url} in chat {event.chat_id}'',
                Reply (''Processing manual translation for: '' @ url @ ''...'') True])
       = ((title, body), tr1)
    \<and> \<not> too_short 30 body
    \<and> translate_title cfg w ''Manual Translate: Translating title for {url}...'' title tr1 = (tt, tr2)
    \<and> translate_text cfg w body False
         (tr2 @ [Log INFO ''Manual Translate: Translating article body from {url}...'']) = (tb, tr3)"
  note eq = manual_translated [OF a [THEN conjunct1] a [THEN conjunct2, THEN conjunct1]
      a [THEN conjunct2, THEN conjunct2, THEN conjunct1]
      a [THEN conjunct2, THEN conjunct2, THEN conjunct2, THEN conjunct1]
      a [THEN conjunct2, THEN conjunct2, THEN conjunct2, THEN conjunct2, THEN conjunct1]
      a [THEN conjunct2, THEN conjunct2, THEN conjunct2, THEN conjunct2, THEN conjunct2]]
  have st: "sent_texts tr3 = sent_texts tr"
    using handler_stages_sent_texts [OF a [THEN conjunct2, THEN conjunct2, THEN conjunct1]
      a [THEN conjunct2, THEN conjunct2, THEN conjunct2, THEN conjunct2, THEN conjunct1]
      a [THEN conjunct2, THEN conjunct2, THEN conjunct2, THEN conjunct2, THEN conjunct2]]
    by (simp add: sent_texts_append)
  {
    assume f: "\<not> truthy tb"
    then show "manual_translate_handler cfg w command tr
                = reply_and_return w
                    (''Translation of body failed for '' @ url
                       @ ''. The translation service might be unavailable or the content is not translatable.'')
                    (tr3 @ [Log WARNING ''Manual Translate: Translation of body failed for article from {url}.''])"
      unfolding eq by simp
    then show "sent_texts (snd (manual_translate_handler cfg w command tr)) = sent_texts tr"
      by (simp add: reply_and_return_trace sent_texts_append st)
  }
  {
    fix b
    assume "tb = Some b \<and> b \<noteq> [] \<and> \<not> truthy tt"
    then show "manual_translate_handler cfg w command tr
                = (Returned,
                   send_telegram_message_telethon w (Chat (command_chat_id command))
                     (b @ [newline, newline] @ ''<a href='' @ [CHR 0x22] @ formatted_url url
                        @ [CHR 0x22] @ ''>Original Article</a>'')
                     (tr3 @ [Log INFO ''Manual Translate: Sending translation for {url} to chat {event.chat_id}''])
                   @ [Log INFO ''Manual Translate: Translation for {url} sent successfully to chat {event.chat_id}.''])"
      unfolding eq by (simp add: message_without_title)
  }
qed


text \<open>
  Claim C1, witness: the request for the body raises (both handlers), and the request for
  the title raises.
\<close>

theorem translation_failure_policy_witness:
  "sent_texts (handle_new_post example_config
       (example_world example_document (ApiResponse [Some ''Title in English'']) ApiRaised True)
       example_post []) = []
   \<and> sent_texts (handle_new_post example_config
       (example_world example_document ApiRaised (ApiResponse [Some ''Body in English'']) True)
       example_post [])
     = [''Body in English'' @ [newline, newline] @ ''<a href='' @ [CHR 0x22]
          @ ''https://mihaaru.com/news/1'' @ [CHR 0x22] @ ''>Original Article</a>'']
   \<and> sent_texts (snd (manual_translate_handler example_config
       (example_world example_document (ApiResponse [Some ''Title in English'']) ApiRaised True)
       example_command [])) = []"
proof -
  let ?u = "''https://mihaaru.com/news/1''"
  let ?wb = "example_world example_document (ApiResponse [Some ''Title in English'']) ApiRaised True"
  let ?wt = "example_world example_document ApiRaised (ApiResponse [Some ''Body in English'']) True"
  let ?p0 = "[Log INFO ''New message received from Mihaaru channel (ID: {event.chat_id})'',
              Log INFO ''Detected article URL: {url} from Mihaaru channel post.'']"
  let ?m0 = "[Log INFO ''Manual /translate command received for URL: {url} in chat {event.chat_id}'',
              Reply (''Processing manual translation for: '' @ ?u @ ''...'') True]"
  let ?title_ok = "[ProviderCall OpenAI (translation_request ''gpt-3.5-turbo'' ''Title'' True)]"
  let ?title_failed = "[ProviderCall OpenAI (translation_request ''gpt-3.5-turbo'' ''Title'' True),
                        Log ERROR ''OpenAI API error: {e}'']"
  let ?body_ok = "[ProviderCall OpenAI (translation_request ''gpt-3.5-turbo'' example_body False)]"
  let ?body_failed = "[ProviderCall OpenAI (translation_request ''gpt-3.5-turbo'' example_body False),
                       Log ERROR ''OpenAI API error: {e}'']"
  have u1: "first_url (case message_text example_post of None \<Rightarrow> [] | Some t \<Rightarrow> t) = Some ?u"
    by (simp add: example_post_def first_url_example_post del: first_url.simps)
  have u2: "first_url (strip (pattern_match_group_1 example_command)) = Some ?u"
    by (simp add: example_command_def first_url_example_command del: first_url.simps)
  have r: "reply ?wb tr msg" for tr msg by (simp add: example_world_def)
  have ne: "example_body \<noteq> []" and l50: "\<not> too_short 50 (Some example_body)"
    and l30: "\<not> too_short 30 (Some example_body)"
    by (simp_all add: example_body_def too_short_def)
  have fetch: "fetch_article_text (example_world example_document ta ba True) ?u tr0
         = ((Some ''Title'', Some example_body), tr0 @ [HttpGet ?u])" for ta ba tr0
    by (simp add: example_fetch)
  have t_ok: "translate_title example_config ?wb line (Some ''Title'') tr0
              = (Some ''Title in English'', tr0 @ [Log INFO line] @ ?title_ok)" for line tr0
    by (simp add: translate_title_def example_translate first_choice_def strip_def isspace_def)
  have t_failed: "translate_title example_config ?wt line (Some ''Title'') tr0
              = (None, tr0 @ [Log INFO line] @ ?title_failed)" for line tr0
    by (simp add: translate_title_def example_translate first_choice_def)
  have b_failed: "translate_text example_config ?wb (Some example_body) False tr0
              = (None, tr0 @ ?body_failed)" for tr0
    using ne by (simp add: example_translate first_choice_def)
  have b_ok: "translate_text example_config ?wt (Some example_body) False tr0
              = (Some ''Body in English'', tr0 @ ?body_ok)" for tr0
    using ne by (simp add: example_translate first_choice_def strip_def isspace_def)
  have 1: "sent_texts (handle_new_post example_config ?wb example_post []) = sent_texts []"
    using translation_failure_policy [where event = example_post and url = ?u and w = ?wb and tr = "[]"
                and title = "Some ''Title''" and body = "Some example_body"
                and cfg = example_config and tt = "Some ''Title in English''" and tb = None
                and ?tr1.0 = "([] @ ?p0) @ [HttpGet ?u]"
                and ?tr2.0 = "(([] @ ?p0) @ [HttpGet ?u])
                                @ [Log INFO ''Translating title for {url}...''] @ ?title_ok"
                and ?tr3.0 = "((([] @ ?p0) @ [HttpGet ?u])
                                @ [Log INFO ''Translating title for {url}...''] @ ?title_ok
                                @ [Log INFO ''Translating article body from {url}...''])
                                @ ?body_failed",
              THEN conjunct1]
      u1 l50 fetch [of "ApiResponse [Some ''Title in English'']" ApiRaised "[] @ ?p0"]
      t_ok [of "''Translating title for {url}...''" "([] @ ?p0) @ [HttpGet ?u]"]
      b_failed [of "(([] @ ?p0) @ [HttpGet ?u])
                                @ [Log INFO ''Translating title for {url}...''] @ ?title_ok
                                @ [Log INFO ''Translating article body from {url}...'']"]
    by simp
  have 2: "handle_new_post example_config ?wt example_post []
         = send_telegram_message_telethon ?wt TargetChannel
             (''Body in English'' @ [newline, newline] @ ''<a href='' @ [CHR 0x22]
                @ formatted_url ?u @ [CHR 0x22] @ ''>Original Article</a>'')
             ((((([] @ ?p0) @ [HttpGet ?u])
                  @ [Log INFO ''Translating title for {url}...''] @ ?title_failed
                  @ [Log INFO ''Translating article body from {url}...''])
                  @ ?body_ok)
                @ [Log INFO ''Sending translation for {url} to target: {TARGET_CHANNEL_ENV}''])
           @ [Log INFO ''Translation for {url} sent successfully.'']"
    using translation_failure_policy [where event = example_post and url = ?u and w = ?wt and tr = "[]"
                and title = "Some ''Title''" and body = "Some example_body"
                and cfg = example_config and tt = None and tb = "Some ''Body in English''"
                and ?tr1.0 = "([] @ ?p0) @ [HttpGet ?u]"
                and ?tr2.0 = "(([] @ ?p0) @ [HttpGet ?u])
                                @ [Log INFO ''Translating title for {url}...''] @ ?title_failed"
                and ?tr3.0 = "((([] @ ?p0) @ [HttpGet ?u])
                                @ [Log INFO ''Translating title for {url}...''] @ ?title_failed
                                @ [Log INFO ''Translating article body from {url}...''])
                                @ ?body_ok",
              THEN conjunct1]
      u1 l50 fetch [of ApiRaised "ApiResponse [Some ''Body in English'']" "[] @ ?p0"]
      t_failed [of "''Translating title for {url}...''" "([] @ ?p0) @ [HttpGet ?u]"]
      b_ok [of "(([] @ ?p0) @ [HttpGet ?u])
                                @ [Log INFO ''Translating title for {url}...''] @ ?title_failed
                                @ [Log INFO ''Translating article body from {url}...'']"]
    by simp
  have 3: "sent_texts (snd (manual_translate_handler example_config ?wb example_command []))
           = sent_texts []"
    using translation_failure_policy [where command = example_command and url = ?u and w = ?wb and tr = "[]"
                and title = "Some ''Title''" and body = "Some example_body"
                and cfg = example_config and tt = "Some ''Title in English''" and tb = None
                and ?tr1.0 = "([] @ ?m0) @ [HttpGet ?u]"
                and ?tr2.0 = "(([] @ ?m0) @ [HttpGet ?u])
                                @ [Log INFO ''Manual Translate: Translating title for {url}...'']
                                @ ?title_ok"
                and ?tr3.0 = "((([] @ ?m0) @ [HttpGet ?u])
                                @ [Log INFO ''Manual Translate: Translating title for {url}...'']
                                @ ?title_ok
                                @ [Log INFO ''Manual Translate: Translating article body from {url}...''])
                                @ ?body_failed",
              THEN conjunct2]
      u2 l30 r fetch [of "ApiResponse [Some ''Title in English'']" ApiRaised "[] @ ?m0"]
      t_ok [of "''Manual Translate: Translating title for {url}...''" "([] @ ?m0) @ [HttpGet ?u]"]
      b_failed [of "(([] @ ?m0) @ [HttpGet ?u])
                                @ [Log INFO ''Manual Translate: Translating title for {url}...'']
                                @ ?title_ok
                                @ [Log INFO ''Manual Translate: Translating article body from {url}...'']"]
    by (simp add: reply_and_return_trace sent_texts_append)
  have len: "length (''Body in English'' @ [newline, newline] @ ''<a href='' @ [CHR 0x22]
                @ ''https://mihaaru.com/news/1'' @ [CHR 0x22] @ ''>Original Article</a>'')
             \<le> MAX_MESSAGE_LENGTH"
    by (simp add: MAX_MESSAGE_LENGTH_def)
  show ?thesis
    using 1 3 len unfolding 2
    by (simp add: send_sent_texts sent_texts_append example_formatted_url)
qed

end
